theory Spec2Isabelle
  imports Complex_Main "HOL-Library.Char_ord" "HOL-Library.List_Lexorder"
begin

section \<open>Python strings\<close>

text \<open>
  A Python \<open>str\<close> is a sequence of Unicode code points, so it is modelled as a list of
  natural numbers. The character tables of the Python runtime (\<open>\w\<close>, \<open>\s\<close>,
  \<open>str.lower\<close>, \<open>str.isdigit\<close>) are given exactly on the ASCII range and on the two
  code points U+0130 (capital I with dot above) and U+0307 (combining dot above); every
  other code point is left as a non-word, non-space character that \<open>lower\<close> keeps.
  The theorems below quantify over ASCII strings only, or are closed at strings over the
  code points listed here.
\<close>

type_synonym pystr = "nat list"

definition u :: "string \<Rightarrow> pystr" where
  "u s = map of_char s"


definition py_isdigit :: "nat \<Rightarrow> bool" where
  "py_isdigit c = (48 \<le> c \<and> c \<le> 57)"

definition py_isupper :: "nat \<Rightarrow> bool" where
  "py_isupper c = (65 \<le> c \<and> c \<le> 90)"

definition py_islower :: "nat \<Rightarrow> bool" where
  "py_islower c = (97 \<le> c \<and> c \<le> 122)"

text \<open>\<open>\w\<close> of the \<open>re\<close> module on a \<open>str\<close> pattern: alphanumeric or underscore.
  U+0130 is a letter; U+0307 is a combining mark and not a word character.\<close>

definition py_isword :: "nat \<Rightarrow> bool" where
  "py_isword c = (py_isdigit c \<or> py_isupper c \<or> py_islower c \<or> c = 95 \<or> c = 304)"

text \<open>\<open>\s\<close> and \<open>str.isspace\<close>: tab, newline, vertical tab, form feed, carriage
  return, the four separators U+001C to U+001F and the space.\<close>

definition py_isspace :: "nat \<Rightarrow> bool" where
  "py_isspace c = ((9 \<le> c \<and> c \<le> 13) \<or> (28 \<le> c \<and> c \<le> 32))"

text \<open>\<open>str.lower\<close>: one code point may become several, as U+0130 does.\<close>

definition py_lower_char :: "nat \<Rightarrow> pystr" where
  "py_lower_char c =
     (if py_isupper c then [c + 32] else if c = 304 then [105, 775] else [c])"

definition py_lower :: "pystr \<Rightarrow> pystr" where
  "py_lower s = concat (map py_lower_char s)"

text \<open>\<open>s.strip(chars)\<close> and \<open>s.strip()\<close> remove, at both ends, the characters of
  \<open>chars\<close> and the whitespace characters respectively.\<close>

definition strip_by :: "(nat \<Rightarrow> bool) \<Rightarrow> pystr \<Rightarrow> pystr" where
  "strip_by P s = rev (dropWhile P (rev (dropWhile P s)))"

definition py_strip_chars :: "nat list \<Rightarrow> pystr \<Rightarrow> pystr" where
  "py_strip_chars cs s = strip_by (\<lambda>c. c \<in> set cs) s"

definition py_strip :: "pystr \<Rightarrow> pystr" where
  "py_strip s = strip_by py_isspace s"

text \<open>\<open>s.replace(old, new)\<close> for a one-character \<open>old\<close>.\<close>

definition py_replace_char :: "nat \<Rightarrow> pystr \<Rightarrow> pystr \<Rightarrow> pystr" where
  "py_replace_char old new s = concat (map (\<lambda>c. if c = old then new else [c]) s)"

text \<open>\<open>s.replace(old, '', count)\<close> for a one-character \<open>old\<close>: a negative count
  removes every occurrence, as in CPython.\<close>

fun remove_first :: "nat \<Rightarrow> nat \<Rightarrow> pystr \<Rightarrow> pystr" where
  "remove_first old 0 s = s"
| "remove_first old (Suc k) [] = []"
| "remove_first old (Suc k) (c # cs) =
     (if c = old then remove_first old k cs else c # remove_first old (Suc k) cs)"

definition py_remove_count :: "nat \<Rightarrow> int \<Rightarrow> pystr \<Rightarrow> pystr" where
  "py_remove_count old count s =
     (if count < 0 then filter (\<lambda>c. c \<noteq> old) s else remove_first old (nat count) s)"

definition py_count :: "nat \<Rightarrow> pystr \<Rightarrow> int" where
  "py_count c s = int (length (filter (\<lambda>d. d = c) s))"

section \<open>Identifier sanitizer (data_cleaning.py)\<close>

text \<open>
  \<^verbatim>\<open>sanitized_name = re.sub(r'[^\w\s_]', '', name)\<close>
  \<^verbatim>\<open>sanitized_name = sanitized_name.replace(' ', '_').lower()\<close>
  \<^verbatim>\<open>sanitized_name = sanitized_name.strip('_')\<close>
\<close>

definition sanitize_column_name :: "pystr \<Rightarrow> pystr" where
  "sanitize_column_name name =
     (let sanitized_name = filter (\<lambda>c. py_isword c \<or> py_isspace c \<or> c = 95) name;
          sanitized_name = py_lower (py_replace_char 32 [95] sanitized_name)
      in py_strip_chars [95] sanitized_name)"



text \<open>The characters the specification allows in a sanitized identifier.\<close>

definition ident_char :: "nat \<Rightarrow> bool" where
  "ident_char c = (py_isdigit c \<or> py_islower c \<or> c = 95)"



section \<open>Type predicates (data_processing.py)\<close>

subsection \<open>The built-in parsers \<open>int()\<close> and \<open>float()\<close>\<close>

text \<open>A digit part: digits, with single underscores allowed between two digits.\<close>

fun digitpart :: "pystr \<Rightarrow> bool" where
  "digitpart [] = False"
| "digitpart [c] = py_isdigit c"
| "digitpart (c # d # cs) =
     (py_isdigit c \<and> (if d = 95 then digitpart cs else digitpart (d # cs)))"

definition digits_value :: "pystr \<Rightarrow> int" where
  "digits_value s = foldl (\<lambda>acc c. 10 * acc + (int c - 48)) 0 (filter py_isdigit s)"

definition drop_sign :: "pystr \<Rightarrow> pystr" where
  "drop_sign s = (case s of [] \<Rightarrow> [] | c # cs \<Rightarrow> if c = 43 \<or> c = 45 then cs else s)"

text \<open>\<open>int(s)\<close>: \<open>None\<close> stands for \<open>ValueError\<close>.\<close>

definition py_int :: "pystr \<Rightarrow> int option" where
  "py_int s =
     (let t = py_strip s; body = drop_sign t
      in if digitpart body
         then Some (if t \<noteq> [] \<and> hd t = 45 then - digits_value body else digits_value body)
         else None)"

text \<open>\<open>float(s)\<close> raises \<open>ValueError\<close> unless the stripped string is an optionally
  signed \<open>inf\<close>, \<open>infinity\<close> or \<open>nan\<close> in any case, or a decimal number with an
  optional exponent.\<close>

definition float_mantissa :: "pystr \<Rightarrow> bool" where
  "float_mantissa m =
     (let ip = takeWhile (\<lambda>c. c \<noteq> 46) m; rest = dropWhile (\<lambda>c. c \<noteq> 46) m
      in if rest = [] then digitpart ip
         else (ip = [] \<and> digitpart (tl rest))
            \<or> (digitpart ip \<and> (tl rest = [] \<or> digitpart (tl rest))))"

definition float_number :: "pystr \<Rightarrow> bool" where
  "float_number s =
     (let m = takeWhile (\<lambda>c. c \<noteq> 101 \<and> c \<noteq> 69) s;
          rest = dropWhile (\<lambda>c. c \<noteq> 101 \<and> c \<noteq> 69) s
      in float_mantissa m \<and> (rest = [] \<or> digitpart (drop_sign (tl rest))))"

definition py_float_ok :: "pystr \<Rightarrow> bool" where
  "py_float_ok s =
     (let body = drop_sign (py_strip s)
      in py_lower body \<in> set (map u [''inf'', ''infinity'', ''nan'']) \<or> float_number body)"

datatype pytype = PyInt | PyFloat

text \<open>\<open>datatype(val)\<close> does not raise \<open>ValueError\<close>.\<close>

fun py_parses :: "pytype \<Rightarrow> pystr \<Rightarrow> bool" where
  "py_parses PyInt s = (py_int s \<noteq> None)"
| "py_parses PyFloat s = py_float_ok s"

subsection \<open>The predicates\<close>

text \<open>\<^verbatim>\<open>val.replace('.', '', val.count('.') - 1).replace(',', '').strip()\<close>\<close>

definition normalize_number :: "pystr \<Rightarrow> pystr" where
  "normalize_number val =
     py_strip (py_replace_char 44 [] (py_remove_count 46 (py_count 46 val - 1) val))"

definition is_type :: "pystr \<Rightarrow> pytype \<Rightarrow> bool" where
  "is_type val datatype =
     (if py_strip val = [] then False else py_parses datatype (normalize_number val))"

text \<open>\<open>int(val)\<close> is evaluated after \<open>is_type(val, int)\<close> has succeeded; it cannot
  raise there (lemma \<open>is_type_int_parses\<close>), so the \<open>None\<close> branch is never taken.\<close>

definition is_integer :: "pystr \<Rightarrow> bool" where
  "is_integer val =
     (let val = normalize_number val
      in if val \<noteq> [] \<and> is_type val PyInt
         then (case py_int val of
                 Some int_val \<Rightarrow> - 2147483648 \<le> int_val \<and> int_val \<le> 2147483647
               | None \<Rightarrow> False)
         else False)"

definition is_float :: "pystr \<Rightarrow> bool" where
  "is_float val =
     (let val = normalize_number val
      in val \<noteq> [] \<and> \<not> is_integer val \<and> is_type val PyFloat)"

text \<open>\<open>dateutil.parser.parse\<close> is a third-party function: whether it returns a date for
  a string is the parameter \<open>parse_ok\<close>.\<close>

definition is_date :: "(pystr \<Rightarrow> bool) \<Rightarrow> pystr \<Rightarrow> bool" where
  "is_date parse_ok string =
     (if string = [] then False else parse_ok string \<and> list_ex py_isdigit string)"

definition is_boolean :: "pystr \<Rightarrow> bool" where
  "is_boolean n =
     (py_lower (py_strip n)
        \<in> set (map u [''true'', ''false'', ''yes'', ''no'', ''y'', ''n'', ''1'', ''0'']))"

section \<open>Type inference (data_processing.py)\<close>

text \<open>The exceptions that leave the functions modelled here. \<open>EngineError\<close> stands for
  any exception the relational engine raises for a statement.\<close>

datatype error = ZeroDivisionError | ValueError | KeyError | EngineError

text \<open>A value fetched from the engine; \<open>None\<close> in a cell is SQL \<open>NULL\<close>.\<close>

datatype val = IntV int | FloatV real | BoolV bool | StrV pystr

type_synonym cell = "val option"

definition SAMPLE_SIZE :: nat where
  "SAMPLE_SIZE = 100"

definition SUCCESS_THRESHOLD :: rat where
  "SUCCESS_THRESHOLD = 1 / 2"

text \<open>The dictionary \<open>counters\<close>, in its insertion order.\<close>

record counters =
  c_INTEGER :: nat
  c_FLOAT :: nat
  c_DATE :: nat
  c_BOOLEAN :: nat
  c_VARCHAR :: nat

definition counters_init :: counters where
  "counters_init = \<lparr>c_INTEGER = 0, c_FLOAT = 0, c_DATE = 0, c_BOOLEAN = 0, c_VARCHAR = 0\<rparr>"

definition items :: "counters \<Rightarrow> (string \<times> nat) list" where
  "items c = [(''INTEGER'', c_INTEGER c), (''FLOAT'', c_FLOAT c), (''DATE'', c_DATE c),
              (''BOOLEAN'', c_BOOLEAN c), (''VARCHAR'', c_VARCHAR c)]"

text \<open>One pass of the body of \<^verbatim>\<open>for data in sample_data\<close>.\<close>

definition count_step :: "(pystr \<Rightarrow> bool) \<Rightarrow> counters \<Rightarrow> pystr \<Rightarrow> counters" where
  "count_step parse_ok c data =
     (let c = (if is_integer data then c\<lparr>c_INTEGER := c_INTEGER c + 1\<rparr>
               else if is_float data then c\<lparr>c_FLOAT := c_FLOAT c + 1\<rparr>
               else c);
          c = (if is_date parse_ok data then c\<lparr>c_DATE := c_DATE c + 1\<rparr> else c)
      in if is_boolean data then c\<lparr>c_BOOLEAN := c_BOOLEAN c + 1\<rparr> else c)"

definition count_types :: "(pystr \<Rightarrow> bool) \<Rightarrow> pystr list \<Rightarrow> counters" where
  "count_types parse_ok sample_data = foldl (count_step parse_ok) counters_init sample_data"

text \<open>\<^verbatim>\<open>{key: val / len(sample_data) for key, val in counters.items()}\<close>: the division
  raises on an empty sample. A rate is a quotient of two integers of at most three digits,
  so the floating-point comparisons of the source agree with the exact ones.\<close>

definition success_rates :: "counters \<Rightarrow> nat \<Rightarrow> error + (string \<times> rat) list" where
  "success_rates c n =
     (if n = 0 then Inl ZeroDivisionError
      else Inr (map (\<lambda>(key, val). (key, of_nat val / of_nat n)) (items c)))"

text \<open>Python's \<open>max\<close> of a non-empty list; strings compare by code point.\<close>

definition py_max :: "'a::linorder list \<Rightarrow> 'a" where
  "py_max xs = foldl max (hd xs) (tl xs)"

text \<open>The part of \<open>infer_column_type\<close> after the query: \<open>sample_data\<close> holds
  \<open>str(data)\<close> for each sampled value.\<close>

definition infer_sample_type :: "(pystr \<Rightarrow> bool) \<Rightarrow> pystr list \<Rightarrow> error + string" where
  "infer_sample_type parse_ok sample_data =
     (case success_rates (count_types parse_ok sample_data) (length sample_data) of
        Inl e \<Rightarrow> Inl e
      | Inr rates \<Rightarrow>
          (let max_rate = py_max (map snd rates)
           in if max_rate < SUCCESS_THRESHOLD then Inr ''VARCHAR''
              else Inr (py_max (map fst (filter (\<lambda>(key, rate). rate = max_rate) rates)))))"

text \<open>\<^verbatim>\<open>SELECT DISTINCT col FROM rel WHERE col IS NOT NULL LIMIT 100\<close>: the distinct
  non-null values of the column, at most \<open>SAMPLE_SIZE\<close> of them. SQL leaves their order
  open; the model keeps the order of the column.\<close>

definition non_null :: "cell list \<Rightarrow> val list" where
  "non_null cells = concat (map (\<lambda>c. case c of None \<Rightarrow> [] | Some v \<Rightarrow> [v]) cells)"

definition sample_query :: "cell list \<Rightarrow> val list" where
  "sample_query cells = take SAMPLE_SIZE (remdups (non_null cells))"

text \<open>\<open>py_str\<close> is Python's \<open>str\<close> on a fetched value.\<close>

definition infer_column_type ::
  "(pystr \<Rightarrow> bool) \<Rightarrow> (val \<Rightarrow> pystr) \<Rightarrow> cell list \<Rightarrow> error + string" where
  "infer_column_type parse_ok py_str cells =
     infer_sample_type parse_ok (map py_str (sample_query cells))"

section \<open>Relations and the engine\<close>

text \<open>
  A relation is the list of its columns, each with its name, the storage type the engine
  reports for it and its cells, one per row. A connection is a map from table names to
  relations. The statements the code sends are modelled by what they do to this state.
  Column and table names are spliced into the statements unquoted; which texts the
  engine's parser accepts as an identifier is the parameter \<open>identifier_ok\<close>.
\<close>

record column =
  cname :: pystr
  ctype :: string
  cells :: "cell list"

type_synonym relation = "column list"

type_synonym db = "pystr \<Rightarrow> relation option"

definition ncols :: "relation \<Rightarrow> nat" where
  "ncols rel = length rel"

definition nrows :: "relation \<Rightarrow> nat" where
  "nrows rel = (case rel of [] \<Rightarrow> 0 | c # _ \<Rightarrow> length (cells c))"

text \<open>All columns of a relation have as many cells as the relation has rows, and no
  two columns share a name.\<close>

definition wf_relation :: "relation \<Rightarrow> bool" where
  "wf_relation rel =
     (distinct (map cname rel) \<and> list_all (\<lambda>c. length (cells c) = nrows rel) rel)"

text \<open>
  What the code takes from outside the repository: the date parser, Python's \<open>str\<close> on
  a fetched value, and the engine's choices that differ between engines and versions
  (\<open>None\<close> or \<open>Inl\<close> where the engine raises).
\<close>

record env =
  parse_ok :: "pystr \<Rightarrow> bool"
  format_date_str :: "pystr \<Rightarrow> pystr option"
  py_str :: "val \<Rightarrow> pystr"
  sql_text :: "val \<Rightarrow> pystr option"
  sql_cast :: "string \<Rightarrow> val \<Rightarrow> val option"
  median_ordered :: "val list \<Rightarrow> error + cell"
  identifier_ok :: "pystr \<Rightarrow> bool"
  allows_empty_table :: bool

definition map2 :: "('a \<Rightarrow> 'b \<Rightarrow> 'c) \<Rightarrow> 'a list \<Rightarrow> 'b list \<Rightarrow> 'c list" where
  "map2 f xs ys = map (\<lambda>(x, y). f x y) (zip xs ys)"

text \<open>\<open>DELETE FROM rel WHERE ...\<close>: \<open>keep\<close> tells, row by row, which rows stay.\<close>

definition keep_rows :: "bool list \<Rightarrow> relation \<Rightarrow> relation" where
  "keep_rows keep rel =
     map (\<lambda>c. c\<lparr>cells := map snd (filter fst (zip keep (cells c)))\<rparr>) rel"

subsection \<open>Aggregates\<close>

definition is_num :: "val \<Rightarrow> bool" where
  "is_num v = (case v of IntV _ \<Rightarrow> True | FloatV _ \<Rightarrow> True | _ \<Rightarrow> False)"

definition num :: "val \<Rightarrow> real" where
  "num v = (case v of IntV i \<Rightarrow> of_int i | FloatV r \<Rightarrow> r | _ \<Rightarrow> 0)"

text \<open>The non-null values of a numeric column; \<open>None\<close> when a value is not a number,
  where the engine raises a conversion error.\<close>

definition numeric_values :: "cell list \<Rightarrow> real list option" where
  "numeric_values cs =
     (if list_all is_num (non_null cs) then Some (map num (non_null cs)) else None)"

text \<open>\<open>AVG\<close> and \<open>STDDEV_SAMP\<close> over the non-null values, in exact arithmetic; both
  are \<open>NULL\<close> when there is nothing to aggregate, the deviation also for one value.\<close>

definition sql_avg :: "real list \<Rightarrow> real option" where
  "sql_avg xs = (if xs = [] then None else Some (sum_list xs / of_nat (length xs)))"

definition var_samp :: "real list \<Rightarrow> real" where
  "var_samp xs =
     sum_list (map (\<lambda>x. (x - sum_list xs / of_nat (length xs))\<^sup>2) xs) / (of_nat (length xs) - 1)"

definition sql_stddev_samp :: "real list \<Rightarrow> real option" where
  "sql_stddev_samp xs = (if length xs < 2 then None else Some (sqrt (var_samp xs)))"

text \<open>\<open>MEDIAN\<close> of numbers: the middle value, or the mean of the two middle values.\<close>

definition median :: "real list \<Rightarrow> real option" where
  "median xs =
     (let ys = sort xs; n = length ys
      in if n = 0 then None
         else if odd n then Some (ys ! (n div 2))
         else Some ((ys ! (n div 2 - 1) + ys ! (n div 2)) / 2))"

definition sql_median :: "env \<Rightarrow> cell list \<Rightarrow> error + cell" where
  "sql_median E cs =
     (if list_all is_num (non_null cs)
      then Inr (map_option FloatV (median (map num (non_null cs))))
      else median_ordered E (non_null cs))"

section \<open>Outlier filter (data_cleaning.py)\<close>

text \<open>Three-valued \<open>AND\<close>; \<open>None\<close> is \<open>NULL\<close>.\<close>

definition sql_and :: "bool option \<Rightarrow> bool option \<Rightarrow> bool option" where
  "sql_and a b =
     (if a = Some False \<or> b = Some False then Some False
      else if a = None \<or> b = None then None
      else Some True)"

text \<open>\<^verbatim>\<open>ABS({column} - {avg_col}) / {stddev_col} < {z_score_threshold}\<close> on one cell.\<close>

definition z_score_clause :: "real \<Rightarrow> real \<Rightarrow> real \<Rightarrow> cell \<Rightarrow> bool option" where
  "z_score_clause avg_col stddev_col z_score_threshold c =
     (case c of None \<Rightarrow> None
      | Some v \<Rightarrow> Some (\<bar>num v - avg_col\<bar> / stddev_col < z_score_threshold))"

text \<open>The loop over \<open>columns_info\<close>: one clause, kept as the column's cells with its
  mean and deviation, for each numeric column whose deviation is neither \<open>NULL\<close> nor 0.\<close>

fun z_score_clauses :: "relation \<Rightarrow> error + (cell list \<times> real \<times> real) list" where
  "z_score_clauses [] = Inr []"
| "z_score_clauses (c # cs) =
     (if ctype c \<in> set [''INTEGER'', ''BIGINT'', ''FLOAT'', ''DOUBLE'']
      then (case numeric_values (cells c) of
              None \<Rightarrow> Inl EngineError
            | Some xs \<Rightarrow>
                (case sql_stddev_samp xs of
                   None \<Rightarrow> z_score_clauses cs
                 | Some stddev_col \<Rightarrow>
                     if stddev_col = 0 then z_score_clauses cs
                     else (case sql_avg xs of
                             None \<Rightarrow> Inl EngineError
                           | Some avg_col \<Rightarrow>
                               (case z_score_clauses cs of
                                  Inl e \<Rightarrow> Inl e
                                | Inr rest \<Rightarrow> Inr ((cells c, avg_col, stddev_col) # rest)))))
      else z_score_clauses cs)"

text \<open>The value of \<open>z_score_filter\<close>, the clauses joined by \<open>AND\<close>, on every row.\<close>

definition z_score_filter ::
  "(cell list \<times> real \<times> real) list \<Rightarrow> real \<Rightarrow> nat \<Rightarrow> bool option list" where
  "z_score_filter clauses z_score_threshold n =
     foldr (\<lambda>(cs, avg_col, stddev_col) acc.
              map2 sql_and (map (z_score_clause avg_col stddev_col z_score_threshold) cs) acc)
       clauses (replicate n (Some True))"

text \<open>\<open>information_schema.columns\<close> has no rows for a table that does not exist, so the
  function then returns without a statement. \<open>DELETE ... WHERE NOT (filter)\<close> removes the
  rows on which the filter is false, and keeps those on which it is true or \<open>NULL\<close>.\<close>

definition handle_outliers :: "db \<Rightarrow> pystr \<Rightarrow> real \<Rightarrow> error + (db \<times> pystr)" where
  "handle_outliers conn relation_name z_score_threshold =
     (case conn relation_name of
        None \<Rightarrow> Inr (conn, relation_name)
      | Some rel \<Rightarrow>
          (case z_score_clauses rel of
             Inl e \<Rightarrow> Inl e
           | Inr clauses \<Rightarrow>
               if clauses = [] then Inr (conn, relation_name)
               else Inr (conn(relation_name \<mapsto>
                           keep_rows
                             (map (\<lambda>b. b \<noteq> Some False)
                                (z_score_filter clauses z_score_threshold (nrows rel)))
                             rel),
                         relation_name)))"

section \<open>Missing-data handler (data_cleaning.py)\<close>

text \<open>\<^verbatim>\<open>SELECT COUNT(col) FROM rel WHERE col IS NOT NULL\<close>\<close>

definition count_not_null :: "cell list \<Rightarrow> nat" where
  "count_not_null cs = length (non_null cs)"

text \<open>The first loop: every column without a non-null value is dropped from the relation
  and removed from \<open>columns\<close>. An engine that refuses to drop the last column of a table
  raises there.\<close>

fun drop_null_columns :: "env \<Rightarrow> relation \<Rightarrow> relation \<Rightarrow> error + relation" where
  "drop_null_columns E rel [] = Inr rel"
| "drop_null_columns E rel (column # columns) =
     (if count_not_null (cells column) = 0
      then (if length rel \<le> 1 \<and> \<not> allows_empty_table E then Inl EngineError
            else drop_null_columns E (filter (\<lambda>c. cname c \<noteq> cname column) rel) columns)
      else drop_null_columns E rel columns)"

text \<open>\<^verbatim>\<open>" AND ".join([f"{col} IS NULL" for col in columns])\<close> on every row.\<close>

definition all_null_rows :: "relation \<Rightarrow> bool list" where
  "all_null_rows rel =
     foldr (\<lambda>c acc. map2 (\<and>) (map (\<lambda>x. x = None) (cells c)) acc) rel
       (replicate (nrows rel) True)"

text \<open>The mode query groups by the column, \<open>NULL\<close> being a group of its own, and orders
  the groups by falling count; \<open>mode_values[0][0]\<close> is the key of a group of the largest
  count. Among several such groups SQL leaves the order open; the model takes the one
  that begins first in the column.\<close>

definition group_counts :: "cell list \<Rightarrow> (cell \<times> nat) list" where
  "group_counts cs = map (\<lambda>k. (k, count_list cs k)) (rev (remdups (rev cs)))"

definition mode_value :: "cell list \<Rightarrow> cell" where
  "mode_value cs =
     (case filter (\<lambda>(k, n). n = py_max (map snd (group_counts cs))) (group_counts cs) of
        [] \<Rightarrow> None
      | (k, n) # _ \<Rightarrow> k)"

text \<open>Python's truth value of a fetched value.\<close>

definition truthy :: "val \<Rightarrow> bool" where
  "truthy v =
     (case v of IntV i \<Rightarrow> i \<noteq> 0 | FloatV r \<Rightarrow> r \<noteq> 0 | BoolV b \<Rightarrow> b | StrV s \<Rightarrow> s \<noteq> [])"

definition fillna :: "val \<Rightarrow> cell list \<Rightarrow> cell list" where
  "fillna v cs = map (\<lambda>c. case c of None \<Rightarrow> Some v | Some x \<Rightarrow> Some x) cs"

text \<open>The body of \<^verbatim>\<open>for column, type in zip(columns, types)\<close>. The statistics are read
  from the relation. \<open>fillna(None)\<close> raises \<open>ValueError\<close>.\<close>

definition impute_column :: "env \<Rightarrow> column \<Rightarrow> string \<Rightarrow> error + column" where
  "impute_column E column type =
     (let is_numeric = type \<in> set [''INTEGER'', ''BIGINT'', ''DOUBLE'', ''DECIMAL'']
      in if is_numeric
         then (case sql_median E (cells column) of
                 Inl e \<Rightarrow> Inl e
               | Inr None \<Rightarrow> Inl ValueError
               | Inr (Some median_value) \<Rightarrow>
                   Inr (column\<lparr>cells := fillna median_value (cells column)\<rparr>))
         else (case mode_value (cells column) of
                 None \<Rightarrow> Inr (column\<lparr>cells := fillna (StrV []) (cells column)\<rparr>)
               | Some v \<Rightarrow>
                   if truthy v then Inr (column\<lparr>cells := fillna v (cells column)\<rparr>)
                   else Inr (column\<lparr>cells := fillna (StrV []) (cells column)\<rparr>)))"

fun impute_columns :: "env \<Rightarrow> (column \<times> string) list \<Rightarrow> error + relation" where
  "impute_columns E [] = Inr []"
| "impute_columns E ((column, type) # rest) =
     (case impute_column E column type of
        Inl e \<Rightarrow> Inl e
      | Inr c \<Rightarrow> (case impute_columns E rest of Inl e \<Rightarrow> Inl e | Inr cs \<Rightarrow> Inr (c # cs)))"

text \<open>
  \<open>types\<close> is read once, before any column is dropped, and is zipped with the columns
  that are left. The data frame is stored under the new name with the storage types of
  the relation it was read from.
\<close>

definition handle_missing_data :: "env \<Rightarrow> db \<Rightarrow> pystr \<Rightarrow> error + (db \<times> pystr)" where
  "handle_missing_data E conn relation_name =
     (case conn relation_name of
        None \<Rightarrow> Inl EngineError
      | Some rel0 \<Rightarrow>
          (let types = map ctype rel0
           in case drop_null_columns E rel0 rel0 of
                Inl e \<Rightarrow> Inl e
              | Inr rel1 \<Rightarrow>
                  if rel1 = [] then Inr (conn(relation_name \<mapsto> rel1), relation_name)
                  else
                    (let rel2 = keep_rows (map Not (all_null_rows rel1)) rel1;
                         conn2 = conn(relation_name \<mapsto> rel2)
                     in if nrows rel2 = 0 then Inr (conn2, relation_name)
                        else
                          (case impute_columns E (zip rel2 types) of
                             Inl e \<Rightarrow> Inl e
                           | Inr df \<Rightarrow>
                               (let new_relation_name = relation_name @ u ''_cleaned''
                                in if conn2 new_relation_name \<noteq> None then Inl EngineError
                                   else Inr (conn2(new_relation_name \<mapsto> df),
                                             new_relation_name))))))"

section \<open>Type coercion (data_processing.py)\<close>

text \<open>Every value of a list of results, or the first error.\<close>

fun collect :: "(error + 'a) list \<Rightarrow> error + 'a list" where
  "collect [] = Inr []"
| "collect (x # xs) =
     (case x of
        Inl e \<Rightarrow> Inl e
      | Inr v \<Rightarrow> (case collect xs of Inl e \<Rightarrow> Inl e | Inr vs \<Rightarrow> Inr (v # vs)))"

definition find_column :: "relation \<Rightarrow> pystr \<Rightarrow> column option" where
  "find_column rel name = find (\<lambda>c. cname c = name) rel"

text \<open>SQL \<open>TRIM\<close> removes spaces.\<close>

definition sql_trim :: "pystr \<Rightarrow> pystr" where
  "sql_trim s = py_strip_chars [32] s"

definition cast_or_error :: "env \<Rightarrow> string \<Rightarrow> val \<Rightarrow> error + cell" where
  "cast_or_error E ty v = (case sql_cast E ty v of None \<Rightarrow> Inl EngineError | Some w \<Rightarrow> Inr (Some w))"

text \<open>
  \<open>TRANSFORMATION_LOGIC\<close>, evaluated on one cell of the old column. The result is
  stored in a column of the inferred type, so it is cast to that type.
  \<^verbatim>\<open>CASE WHEN col IS NULL OR TRIM(col) = '' OR NOT is_integer(col) THEN median\<close>
  \<^verbatim>\<open>     ELSE CAST(REPLACE(col, ',', '') AS INTEGER) END\<close>
  and the same with \<open>is_float\<close>, the mean and \<open>FLOAT\<close>.
\<close>

definition transform_numeric ::
  "env \<Rightarrow> string \<Rightarrow> (pystr \<Rightarrow> bool) \<Rightarrow> val \<Rightarrow> cell \<Rightarrow> error + cell" where
  "transform_numeric E ty pred value_to_replace c =
     (case c of
        None \<Rightarrow> cast_or_error E ty value_to_replace
      | Some v \<Rightarrow>
          (case sql_text E v of
             None \<Rightarrow> Inl EngineError
           | Some s \<Rightarrow>
               if sql_trim s = [] \<or> \<not> pred s then cast_or_error E ty value_to_replace
               else cast_or_error E ty (StrV (py_replace_char 44 [] s))))"

text \<open>\<^verbatim>\<open>CASE WHEN is_boolean(col) THEN CAST(col AS BOOLEAN) ELSE NULL END\<close>\<close>

definition transform_boolean :: "env \<Rightarrow> cell \<Rightarrow> error + cell" where
  "transform_boolean E c =
     (case c of
        None \<Rightarrow> Inr None
      | Some v \<Rightarrow>
          (case sql_text E v of
             None \<Rightarrow> Inl EngineError
           | Some s \<Rightarrow> if is_boolean s then cast_or_error E ''BOOLEAN'' v else Inr None))"

text \<open>\<^verbatim>\<open>CASE WHEN is_date(col, False) THEN format_date(col) ELSE NULL END\<close>\<close>

definition transform_date :: "env \<Rightarrow> cell \<Rightarrow> error + cell" where
  "transform_date E c =
     (case c of
        None \<Rightarrow> Inr None
      | Some v \<Rightarrow>
          (case sql_text E v of
             None \<Rightarrow> Inl EngineError
           | Some s \<Rightarrow>
               if is_date (parse_ok E) s
               then (case format_date_str E s of
                       None \<Rightarrow> Inr None
                     | Some d \<Rightarrow> cast_or_error E ''DATE'' (StrV d))
               else Inr None))"

definition transform_varchar :: "env \<Rightarrow> cell \<Rightarrow> error + cell" where
  "transform_varchar E c = (case c of None \<Rightarrow> Inr None | Some v \<Rightarrow> cast_or_error E ''VARCHAR'' v)"

text \<open>
  \<^verbatim>\<open>UPDATE rel SET col_new = cast_expression\<close>: the new cells, or the error of the
  statement. For INTEGER and FLOAT a replacement value of \<open>None\<close> is spliced into the
  statement as the text \<open>None\<close>, which the engine rejects. The last branch stands for
  the \<open>KeyError\<close> of a type outside the table; the inference returns one of the five
  types of the table (lemma \<open>infer_sample_type_returns\<close> below), so it is never
  taken.
\<close>

definition cast_expression :: "env \<Rightarrow> string \<Rightarrow> cell \<Rightarrow> cell list \<Rightarrow> error + cell list" where
  "cast_expression E inferred_type value_to_replace cs =
     (if inferred_type = ''INTEGER'' \<or> inferred_type = ''FLOAT''
      then (case value_to_replace of
              None \<Rightarrow> Inl EngineError
            | Some r \<Rightarrow>
                collect (map (transform_numeric E inferred_type
                                (if inferred_type = ''INTEGER'' then is_integer else is_float) r) cs))
      else if inferred_type = ''BOOLEAN'' then collect (map (transform_boolean E) cs)
      else if inferred_type = ''DATE'' then collect (map (transform_date E) cs)
      else if inferred_type = ''VARCHAR'' then collect (map (transform_varchar E) cs)
      else Inl KeyError)"

text \<open>The rows selected by \<^verbatim>\<open>WHERE is_float(col)\<close> (or \<open>is_integer\<close>), each cast by
  \<^verbatim>\<open>CAST(REPLACE(col, ',', '') AS FLOAT)\<close> (or \<open>INTEGER\<close>).\<close>

fun cast_matching :: "env \<Rightarrow> (pystr \<Rightarrow> bool) \<Rightarrow> string \<Rightarrow> val list \<Rightarrow> error + real list" where
  "cast_matching E pred ty [] = Inr []"
| "cast_matching E pred ty (v # vs) =
     (case sql_text E v of
        None \<Rightarrow> Inl EngineError
      | Some s \<Rightarrow>
          if pred s
          then (case sql_cast E ty (StrV (py_replace_char 44 [] s)) of
                  None \<Rightarrow> Inl EngineError
                | Some w \<Rightarrow>
                    (case cast_matching E pred ty vs of
                       Inl e \<Rightarrow> Inl e
                     | Inr r \<Rightarrow> Inr (num w # r)))
          else cast_matching E pred ty vs)"

definition compute_mean_or_median :: "env \<Rightarrow> cell list \<Rightarrow> string \<Rightarrow> error + cell" where
  "compute_mean_or_median E cs datatype =
     (if datatype = ''FLOAT''
      then (case cast_matching E is_float ''FLOAT'' (non_null cs) of
              Inl e \<Rightarrow> Inl e
            | Inr xs \<Rightarrow> Inr (map_option FloatV (sql_avg xs)))
      else if datatype = ''INTEGER''
      then (case cast_matching E is_integer ''INTEGER'' (non_null cs) of
              Inl e \<Rightarrow> Inl e
            | Inr xs \<Rightarrow> Inr (map_option FloatV (median xs)))
      else Inl ValueError)"

subsection \<open>Schema statements\<close>

text \<open>\<open>ALTER TABLE rel ADD COLUMN name type\<close>: the new column comes last and holds
  \<open>NULL\<close> in every row.\<close>

definition add_column :: "env \<Rightarrow> relation \<Rightarrow> pystr \<Rightarrow> string \<Rightarrow> error + relation" where
  "add_column E rel name ty =
     (if name \<in> set (map cname rel) \<or> \<not> identifier_ok E name then Inl EngineError
      else Inr (rel @ [\<lparr>cname = name, ctype = ty, cells = replicate (nrows rel) None\<rparr>]))"

definition drop_column :: "env \<Rightarrow> relation \<Rightarrow> pystr \<Rightarrow> error + relation" where
  "drop_column E rel name =
     (if name \<notin> set (map cname rel) \<or> (length rel \<le> 1 \<and> \<not> allows_empty_table E)
      then Inl EngineError
      else Inr (filter (\<lambda>c. cname c \<noteq> name) rel))"

definition rename_column :: "env \<Rightarrow> relation \<Rightarrow> pystr \<Rightarrow> pystr \<Rightarrow> error + relation" where
  "rename_column E rel old new =
     (if old \<notin> set (map cname rel) \<or> \<not> identifier_ok E new
         \<or> (new \<noteq> old \<and> new \<in> set (map cname rel))
      then Inl EngineError
      else Inr (map (\<lambda>c. if cname c = old then c\<lparr>cname := new\<rparr> else c) rel))"

definition update_column ::
  "env \<Rightarrow> relation \<Rightarrow> pystr \<Rightarrow> pystr \<Rightarrow> string \<Rightarrow> cell \<Rightarrow> error + relation" where
  "update_column E rel col col_new inferred_type value_to_replace =
     (case find_column rel col of
        None \<Rightarrow> Inl EngineError
      | Some c \<Rightarrow>
          if col_new \<notin> set (map cname rel) then Inl EngineError
          else (case cast_expression E inferred_type value_to_replace (cells c) of
                  Inl e \<Rightarrow> Inl e
                | Inr new_cells \<Rightarrow>
                    Inr (map (\<lambda>d. if cname d = col_new then d\<lparr>cells := new_cells\<rparr> else d) rel)))"

subsection \<open>\<open>infer_and_set_datatypes\<close>\<close>

text \<open>
  The three \<open>try\<close> blocks of one pass of \<^verbatim>\<open>for col in columns\<close>: add the new
  column, fill it, then drop the old column and rename the new one. Each block keeps the
  relation as the failed statement left it and goes on.
\<close>

definition migrate_column :: "env \<Rightarrow> relation \<Rightarrow> pystr \<Rightarrow> string \<Rightarrow> cell \<Rightarrow> relation" where
  "migrate_column E rel col inferred_type value_to_replace =
     (let col_new = col @ u ''_new'';
          rel1 = (case add_column E rel col_new inferred_type of Inl e \<Rightarrow> rel | Inr r \<Rightarrow> r);
          rel2 = (case update_column E rel1 col col_new inferred_type value_to_replace of
                    Inl e \<Rightarrow> rel1 | Inr r \<Rightarrow> r)
      in case drop_column E rel2 col of
           Inl e \<Rightarrow> rel2
         | Inr r \<Rightarrow> (case rename_column E r col_new col of Inl e \<Rightarrow> r | Inr r' \<Rightarrow> r'))"

text \<open>
  One pass of the loop. The inference and the replacement value are computed outside
  any \<open>try\<close>, so their errors leave the function.
\<close>

definition set_datatype ::
  "env \<Rightarrow> relation \<Rightarrow> pystr \<Rightarrow> error + (relation \<times> string)" where
  "set_datatype E rel col =
     (case find_column rel col of
        None \<Rightarrow> Inl EngineError
      | Some c \<Rightarrow>
          (case infer_column_type (parse_ok E) (py_str E) (cells c) of
             Inl e \<Rightarrow> Inl e
           | Inr inferred_type \<Rightarrow>
               (case (if inferred_type \<in> set [''INTEGER'', ''FLOAT'']
                      then compute_mean_or_median E (cells c) inferred_type
                      else Inr None) of
                  Inl e \<Rightarrow> Inl e
                | Inr value_to_replace \<Rightarrow>
                    Inr (migrate_column E rel col inferred_type value_to_replace,
                         inferred_type))))"

fun set_datatypes ::
  "env \<Rightarrow> relation \<Rightarrow> pystr list \<Rightarrow> error + (relation \<times> (pystr \<times> string) list)" where
  "set_datatypes E rel [] = Inr (rel, [])"
| "set_datatypes E rel (col # columns) =
     (case set_datatype E rel col of
        Inl e \<Rightarrow> Inl e
      | Inr (rel', inferred_type) \<Rightarrow>
          (case set_datatypes E rel' columns of
             Inl e \<Rightarrow> Inl e
           | Inr (rel'', inferred_columns) \<Rightarrow>
               Inr (rel'', (col, inferred_type) # inferred_columns)))"

text \<open>\<open>table_exists\<close> fails for a missing table, and the function raises
  \<open>ValueError\<close>.\<close>

definition infer_and_set_datatypes ::
  "env \<Rightarrow> db \<Rightarrow> pystr \<Rightarrow> error + (db \<times> pystr \<times> (pystr \<times> string) list)" where
  "infer_and_set_datatypes E conn relation_name =
     (case conn relation_name of
        None \<Rightarrow> Inl ValueError
      | Some rel \<Rightarrow>
          (case set_datatypes E rel (map cname rel) of
             Inl e \<Rightarrow> Inl e
           | Inr (rel', inferred_columns) \<Rightarrow>
               Inr (conn(relation_name \<mapsto> rel'), relation_name, inferred_columns)))"

section \<open>Pipeline (data_cleaning.py)\<close>

text \<open>\<^verbatim>\<open>re.sub(r'\W|^(?=\d)', '', file.filename.rsplit('.', 1)[0].replace(' ', '_')).lower()\<close>:
  the second alternative of the pattern matches the empty string, so only the characters
  that are not word characters are removed.\<close>

definition rsplit_dot :: "pystr \<Rightarrow> pystr" where
  "rsplit_dot s = (if 46 \<in> set s then rev (tl (dropWhile (\<lambda>c. c \<noteq> 46) (rev s))) else s)"

definition upload_filename :: "pystr \<Rightarrow> pystr" where
  "upload_filename file_name =
     py_lower (filter py_isword (py_replace_char 32 [95] (rsplit_dot file_name)))"

text \<open>The loop that renames every column to its sanitized name; a failing statement
  leaves the function.\<close>

fun sanitize_columns :: "env \<Rightarrow> relation \<Rightarrow> pystr list \<Rightarrow> error + relation" where
  "sanitize_columns E rel [] = Inr rel"
| "sanitize_columns E rel (old_column_name # rest) =
     (case rename_column E rel old_column_name (sanitize_column_name old_column_name) of
        Inl e \<Rightarrow> Inl e
      | Inr rel' \<Rightarrow> sanitize_columns E rel' rest)"

text \<open>The first 100 rows, with the columns of Boolean values turned into integers.\<close>

definition is_bool :: "cell \<Rightarrow> bool" where
  "is_bool c = (case c of Some (BoolV _) \<Rightarrow> True | _ \<Rightarrow> False)"

definition bool_to_int :: "cell \<Rightarrow> cell" where
  "bool_to_int c = (case c of Some (BoolV b) \<Rightarrow> Some (IntV (if b then 1 else 0)) | _ \<Rightarrow> c)"

definition sample_of :: "relation \<Rightarrow> relation" where
  "sample_of rel =
     map (\<lambda>c. let cs = take 100 (cells c)
              in c\<lparr>cells := (if list_all is_bool cs then map bool_to_int cs else cs)\<rparr>) rel"

text \<open>
  \<open>parsed\<close> is the relation the CSV file holds, \<open>None\<close> when the file does not parse;
  the file name, the time stamp and the random suffix are inputs. The result is the new
  connection state with the pair the function returns, or the exception that leaves it.
\<close>

definition clean_and_store_data ::
  "env \<Rightarrow> db \<Rightarrow> relation option \<Rightarrow> pystr \<Rightarrow> pystr \<Rightarrow> pystr
     \<Rightarrow> error + (db \<times> (pystr \<times> relation) option)" where
  "clean_and_store_data E conn parsed file_name timestamp temp_suffix =
     (case parsed of
        None \<Rightarrow> Inr (conn, None)
      | Some raw \<Rightarrow>
          (let upload_id = upload_filename file_name @ [95] @ timestamp @ [95] @ temp_suffix;
               relation_name = u ''tmp_'' @ upload_id
           in if conn relation_name = None \<and> identifier_ok E relation_name
              then
                (case sanitize_columns E raw (map cname raw) of
                   Inl e \<Rightarrow> Inl e
                 | Inr rel \<Rightarrow>
                     (case handle_missing_data E (conn(relation_name \<mapsto> rel)) relation_name of
                        Inl e \<Rightarrow> Inl e
                      | Inr (conn2, relation_after_missing_data) \<Rightarrow>
                          (case handle_outliers conn2 relation_after_missing_data 3 of
                             Inl e \<Rightarrow> Inl e
                           | Inr (conn3, relation_after_outliers) \<Rightarrow>
                               (case infer_and_set_datatypes E conn3 relation_after_outliers of
                                  Inl e \<Rightarrow> Inl e
                                | Inr (conn4, _) \<Rightarrow>
                                    (case conn4 relation_after_outliers of
                                       None \<Rightarrow> Inl EngineError
                                     | Some final \<Rightarrow>
                                         if conn4 upload_id = None \<and> identifier_ok E upload_id
                                         then Inr ((conn4(upload_id \<mapsto> final))(relation_name := None),
                                                   Some (upload_id, sample_of final))
                                         else Inl EngineError)))))
              else Inl EngineError))"

section \<open>An example environment\<close>

text \<open>A concrete environment on which the functions can be run: no string is a date,
  the engine casts between integers and their decimal text only, refuses string
  functions on values that are not text, takes lowercase identifiers made of letters,
  digits and underscores that do not begin with a digit, and refuses to drop the last
  column of a table. The examples hold integers and text only; a floating-point value
  is rendered by a fixed text.\<close>

function dec :: "nat \<Rightarrow> pystr" where
  "dec n = (if n < 10 then [48 + n] else dec (n div 10) @ [48 + n mod 10])"
  by pat_completeness auto
termination
  by (relation "measure id") auto

definition example_str :: "val \<Rightarrow> pystr" where
  "example_str v =
     (case v of
        IntV i \<Rightarrow> (if i < 0 then 45 # dec (nat (- i)) else dec (nat i))
      | StrV s \<Rightarrow> s
      | BoolV b \<Rightarrow> (if b then u ''True'' else u ''False'')
      | FloatV r \<Rightarrow> u ''nan'')"

definition example_cast :: "string \<Rightarrow> val \<Rightarrow> val option" where
  "example_cast ty v =
     (if ty = ''INTEGER''
      then (case v of
              IntV i \<Rightarrow> Some (IntV i)
            | FloatV r \<Rightarrow> Some (IntV (round r))
            | StrV s \<Rightarrow> map_option IntV (py_int s)
            | BoolV b \<Rightarrow> None)
      else if ty = ''VARCHAR'' then Some (StrV (example_str v))
      else None)"

definition example_env :: env where
  "example_env =
     \<lparr>parse_ok = (\<lambda>s. False),
      format_date_str = (\<lambda>s. None),
      py_str = example_str,
      sql_text = (\<lambda>v. case v of StrV s \<Rightarrow> Some s | _ \<Rightarrow> None),
      sql_cast = example_cast,
      median_ordered = (\<lambda>vs. Inl EngineError),
      identifier_ok = (\<lambda>s. s \<noteq> [] \<and> list_all ident_char s \<and> \<not> py_isdigit (hd s)),
      allows_empty_table = False\<rparr>"

text \<open>Every column has \<open>n\<close> cells.\<close>

definition has_rows :: "nat \<Rightarrow> relation \<Rightarrow> bool" where
  "has_rows n rel = list_all (\<lambda>c. length (cells c) = n) rel"

text \<open>A table of three columns: \<open>a\<close> is empty, \<open>b\<close> is numeric with one gap, its
  median being 3 and its most frequent value 1, and \<open>c\<close> is numeric without gaps.\<close>

definition gap_table :: relation where
  "gap_table =
     [\<lparr>cname = u ''a'', ctype = ''VARCHAR'', cells = [None, None, None, None, None]\<rparr>,
      \<lparr>cname = u ''b'', ctype = ''BIGINT'',
         cells = [Some (IntV 1), Some (IntV 1), None, Some (IntV 5), Some (IntV 6)]\<rparr>,
      \<lparr>cname = u ''c'', ctype = ''BIGINT'',
         cells = [Some (IntV 7), Some (IntV 7), Some (IntV 7), Some (IntV 7), Some (IntV 7)]\<rparr>]"

text \<open>The table of a CSV file with the header \<open>a,...,k\<close> and eleven rows, the rows of
  the identity matrix of size 11.\<close>

definition unit_column :: "nat \<Rightarrow> nat \<Rightarrow> column" where
  "unit_column n k =
     \<lparr>cname = [97 + k], ctype = ''BIGINT'',
      cells = map (\<lambda>i. Some (IntV (if i = k then 1 else 0))) [0..<n]\<rparr>"

definition identity_table :: relation where
  "identity_table = map (unit_column 11) [0..<11]"

text \<open>A table of two columns and four rows, one column and one row of it empty.\<close>

definition people :: relation where
  "people =
     [\<lparr>cname = u ''Age '', ctype = ''VARCHAR'',
       cells = [Some (StrV (u ''25'')), Some (StrV (u ''30'')), None,
                Some (StrV (u ''forty''))]\<rparr>,
      \<lparr>cname = u ''Note'', ctype = ''VARCHAR'', cells = [None, None, None, None]\<rparr>]"

text \<open>The z-score test with both sides squared, which needs no square root, and the
  statistics of a numeric column as the filter computes them.\<close>

definition z_score_clause_sq :: "real \<Rightarrow> real \<Rightarrow> real \<Rightarrow> cell \<Rightarrow> bool option" where
  "z_score_clause_sq avg_col var_col z_score_threshold c =
     (case c of None \<Rightarrow> None
      | Some v \<Rightarrow> Some ((num v - avg_col)\<^sup>2 < z_score_threshold\<^sup>2 * var_col))"

definition column_stats :: "real \<Rightarrow> real \<Rightarrow> column \<Rightarrow> bool" where
  "column_stats a v c =
     (ctype c = ''BIGINT'' \<and> list_all is_num (non_null (cells c))
      \<and> 2 \<le> length (non_null (cells c))
      \<and> sum_list (map num (non_null (cells c))) / of_nat (length (non_null (cells c))) = a
      \<and> var_samp (map num (non_null (cells c))) = v)"

text \<open>The column of scenario 3.\<close>

definition scenario3 :: "cell list" where
  "scenario3 = map (Some \<circ> IntV) [9, 10, 11, 10, 100000]"

section \<open>Properties of the string functions\<close>

subsection \<open>Stripping\<close>

lemma dropWhile_id_hd: "s \<noteq> [] \<Longrightarrow> \<not> P (hd s) \<Longrightarrow> dropWhile P s = s"
  by (cases s) auto

lemma last_dropWhile_keep: "dropWhile P xs \<noteq> [] \<Longrightarrow> last (dropWhile P xs) = last xs"
  by (induction xs) (auto split: if_splits)

lemma strip_by_id:
  assumes "s = [] \<or> (\<not> P (hd s) \<and> \<not> P (last s))"
  shows "strip_by P s = s"
proof (cases "s = []")
  case True
  then show ?thesis by (simp add: strip_by_def)
next
  case False
  with assms have h: "\<not> P (hd s)" and l: "\<not> P (last s)" by auto
  have a: "dropWhile P s = s"
    using False h by (simp add: dropWhile_id_hd)
  have "\<not> P (hd (rev s))" using False l by (simp add: hd_rev)
  then have "dropWhile P (rev s) = rev s"
    using False by (simp add: dropWhile_id_hd)
  with a show ?thesis by (simp add: strip_by_def)
qed

lemma strip_by_ends:
  assumes "strip_by P s \<noteq> []"
  shows "\<not> P (hd (strip_by P s)) \<and> \<not> P (last (strip_by P s))"
proof -
  let ?a = "dropWhile P s"
  let ?b = "dropWhile P (rev ?a)"
  have b: "?b \<noteq> []" using assms by (simp add: strip_by_def)
  have a: "?a \<noteq> []"
  proof
    assume "?a = []"
    then have "?b = []" by (metis dropWhile.simps(1) rev.simps(1))
    with b show False by simp
  qed
  have "\<not> P (hd ?b)" using b by (metis hd_dropWhile)
  then have l: "\<not> P (last (rev ?b))" using b by (simp add: last_rev)
  have "last ?b = last (rev ?a)" using b by (rule last_dropWhile_keep)
  also have "\<dots> = hd ?a" using a by (simp add: last_rev)
  finally have "hd (rev ?b) = hd ?a" using b by (simp add: hd_rev)
  moreover have "\<not> P (hd ?a)" using a by (metis hd_dropWhile)
  ultimately have "\<not> P (hd (rev ?b))" by simp
  with l show ?thesis by (simp add: strip_by_def)
qed

lemma set_strip_by: "set (strip_by P s) \<subseteq> set s"
  unfolding strip_by_def
  by (metis set_dropWhileD set_rev subsetI)

lemma strip_by_idem: "strip_by P (strip_by P s) = strip_by P s"
  using strip_by_ends [of P s] by (intro strip_by_id) blast

lemma count_dropWhile_le: "length (filter P (dropWhile Q s)) \<le> length (filter P s)"
  by (induction s) auto

lemma count_strip_by_le: "length (filter P (strip_by Q s)) \<le> length (filter P s)"
proof -
  have "length (filter P (strip_by Q s)) = length (filter P (dropWhile Q (rev (dropWhile Q s))))"
    by (simp add: strip_by_def rev_filter [symmetric])
  also have "\<dots> \<le> length (filter P (rev (dropWhile Q s)))"
    by (rule count_dropWhile_le)
  also have "\<dots> = length (filter P (dropWhile Q s))"
    by (simp add: rev_filter [symmetric])
  also have "\<dots> \<le> length (filter P s)"
    by (rule count_dropWhile_le)
  finally show ?thesis .
qed

subsection \<open>Normalising a number string\<close>

lemma replace_char_del: "py_replace_char c [] s = filter (\<lambda>d. d \<noteq> c) s"
  by (induction s) (auto simp: py_replace_char_def)

lemma count_remove_first:
  "length (filter (\<lambda>d. d = c) (remove_first c k s)) = length (filter (\<lambda>d. d = c) s) - k"
  by (induction c k s rule: remove_first.induct) auto

lemma count_remove_count:
  "length (filter (\<lambda>d. d = c) (py_remove_count c (py_count c s - 1) s)) \<le> 1"
proof (cases "py_count c s - 1 < 0")
  case True
  then show ?thesis by (simp add: py_remove_count_def)
next
  case False
  then have "nat (py_count c s - 1) = length (filter (\<lambda>d. d = c) s) - 1"
    by (simp add: py_count_def)
  with False show ?thesis
    by (simp add: py_remove_count_def count_remove_first)
qed

lemma count_filter_other:
  "c \<noteq> e \<Longrightarrow> length (filter (\<lambda>d. d = c) (filter (\<lambda>d. d \<noteq> e) s)) = length (filter (\<lambda>d. d = c) s)"
  by (induction s) auto

lemma normalize_number_dots:
  "length (filter (\<lambda>d. d = 46) (normalize_number val)) \<le> 1"
proof -
  have "length (filter (\<lambda>d. d = 46) (normalize_number val))
      \<le> length (filter (\<lambda>d. d = 46)
           (filter (\<lambda>d. d \<noteq> 44) (py_remove_count 46 (py_count 46 val - 1) val)))"
    unfolding normalize_number_def py_strip_def replace_char_del by (rule count_strip_by_le)
  also have "\<dots> = length (filter (\<lambda>d. d = 46) (py_remove_count 46 (py_count 46 val - 1) val))"
    by (rule count_filter_other) simp
  also have "\<dots> \<le> 1" by (rule count_remove_count)
  finally show ?thesis .
qed

lemma normalize_number_commas: "44 \<notin> set (normalize_number val)"
proof -
  have "set (normalize_number val)
      \<subseteq> set (filter (\<lambda>d. d \<noteq> 44) (py_remove_count 46 (py_count 46 val - 1) val))"
    unfolding normalize_number_def py_strip_def replace_char_del by (rule set_strip_by)
  then show ?thesis by auto
qed

lemma remove_count_fixed:
  assumes "length (filter (\<lambda>d. d = c) w) \<le> 1"
  shows "py_remove_count c (py_count c w - 1) w = w"
proof (cases "length (filter (\<lambda>d. d = c) w) = 0")
  case True
  then have "filter (\<lambda>d. d \<noteq> c) w = w"
    by (simp add: filter_id_conv filter_empty_conv)
  with True show ?thesis by (simp add: py_remove_count_def py_count_def)
next
  case False
  with assms have "length (filter (\<lambda>d. d = c) w) = 1" by linarith
  then show ?thesis by (simp add: py_remove_count_def py_count_def)
qed

lemma normalize_number_idem:
  "normalize_number (normalize_number val) = normalize_number val"
proof -
  let ?w = "normalize_number val"
  have 1: "py_remove_count 46 (py_count 46 ?w - 1) ?w = ?w"
    by (rule remove_count_fixed [OF normalize_number_dots])
  have 2: "py_replace_char 44 [] ?w = ?w"
    using normalize_number_commas [of val]
    by (simp add: replace_char_del filter_id_conv) metis
  have 3: "py_strip ?w = ?w"
    by (simp add: normalize_number_def py_strip_def strip_by_idem)
  show ?thesis
    by (subst normalize_number_def) (simp add: 1 2 3)
qed

lemma is_type_int_parses:
  "is_type (normalize_number val) PyInt \<Longrightarrow> py_int (normalize_number val) \<noteq> None"
  by (simp add: is_type_def normalize_number_idem split: if_splits)

subsection \<open>Sanitizer\<close>















text \<open>
  Claim C7: \<open>2147483647\<close> passes \<open>is_integer\<close> and is counted under INTEGER;
  \<open>2147483648\<close> fails \<open>is_integer\<close>, passes \<open>is_float\<close> and is counted under FLOAT.
\<close>

theorem is_integer_range_boundary:
  "is_integer (u ''2147483647'')
   \<and> \<not> is_integer (u ''2147483648'')
   \<and> is_float (u ''2147483648'')
   \<and> c_INTEGER (count_types P [u ''2147483647'']) = 1
   \<and> c_INTEGER (count_types P [u ''2147483648'']) = 0
   \<and> c_FLOAT (count_types P [u ''2147483648'']) = 1"
proof -
  have a: "is_integer (u ''2147483647'')" by code_simp
  have b: "\<not> is_integer (u ''2147483648'')" by code_simp
  have c: "is_float (u ''2147483648'')" by code_simp
  show ?thesis
    using a b c by (simp add: count_types_def count_step_def counters_init_def Let_def)
qed

section \<open>Properties of the type inference\<close>

lemma py_max_foldl_in: "foldl max a xs \<in> set (a # xs)"
  by (induction xs arbitrary: a) (auto simp: max_def)

lemma py_max_in: "xs \<noteq> [] \<Longrightarrow> py_max xs \<in> set xs"
  using py_max_foldl_in [of "hd xs" "tl xs"] by (cases xs) (auto simp: py_max_def)

lemma foldl_max_Max: "foldl max a xs = Max (set (a # xs))"
proof (induction xs arbitrary: a)
  case Nil
  then show ?case by simp
next
  case (Cons x xs)
  have "Max (set (a # x # xs)) = Max (insert (max a x) (set xs))"
    by (cases "xs = []") (auto simp: max.assoc)
  with Cons show ?case by simp
qed

lemma py_max_Max: "xs \<noteq> [] \<Longrightarrow> py_max xs = Max (set xs)"
  by (cases xs) (simp_all add: py_max_def foldl_max_Max)

lemma success_rates_Inr:
  "n \<noteq> 0 \<Longrightarrow> \<exists>rates. success_rates c n = Inr rates \<and> map fst rates = map fst (items c) \<and> rates \<noteq> []"
  by (simp add: success_rates_def items_def)

lemma infer_sample_type_empty: "infer_sample_type P [] = Inl ZeroDivisionError"
  by (simp add: infer_sample_type_def success_rates_def)

lemma infer_sample_type_returns:
  assumes "sample_data \<noteq> []"
  shows "\<exists>ty \<in> set [''INTEGER'', ''FLOAT'', ''DATE'', ''BOOLEAN'', ''VARCHAR''].
           infer_sample_type P sample_data = Inr ty"
proof -
  let ?c = "count_types P sample_data"
  from assms obtain rates where r: "success_rates ?c (length sample_data) = Inr rates"
    and k: "map fst rates = map fst (items ?c)" and ne: "rates \<noteq> []"
    using success_rates_Inr [of "length sample_data" ?c] by auto
  let ?m = "py_max (map snd rates)"
  let ?best = "filter (\<lambda>(key, rate). rate = ?m) rates"
  have "?m \<in> set (map snd rates)" using ne by (intro py_max_in) simp
  then have "?best \<noteq> []" by (auto simp: filter_empty_conv)
  then have "py_max (map fst ?best) \<in> set (map fst ?best)" by (intro py_max_in) simp
  then have "py_max (map fst ?best) \<in> set (map fst rates)" by auto
  then have "py_max (map fst ?best) \<in> set [''INTEGER'', ''FLOAT'', ''DATE'', ''BOOLEAN'', ''VARCHAR'']"
    unfolding k by (simp add: items_def)
  then show ?thesis
    using r by (simp add: infer_sample_type_def Let_def del: set_simps) (simp)
qed

lemma sample_query_empty: "(sample_query cs = []) = (\<forall>c \<in> set cs. c = None)"
proof -
  have "(non_null cs = []) = (\<forall>c \<in> set cs. c = None)"
    by (induction cs) (auto simp: non_null_def split: option.splits)
  then show ?thesis by (simp add: sample_query_def SAMPLE_SIZE_def)
qed

text \<open>
  Claim C8: when the sample of a column is not empty and the largest of the five success
  rates is below one half, the inferred type is VARCHAR.
\<close>

theorem infer_column_type_below_threshold:
  assumes "sample_query cs \<noteq> []"
    and "success_rates (count_types P (map str (sample_query cs)))
           (length (sample_query cs)) = Inr rates"
    and "Max (set (map snd rates)) < 1 / 2"
  shows "infer_column_type P str cs = Inr ''VARCHAR''"
proof -
  have "rates \<noteq> []"
    using assms(2) by (auto simp: success_rates_def items_def split: if_splits)
  then have "py_max (map snd rates) = Max (set (map snd rates))"
    by (intro py_max_Max) simp
  with assms(2,3) show ?thesis
    by (simp add: infer_column_type_def infer_sample_type_def SUCCESS_THRESHOLD_def)
qed

theorem infer_column_type_below_threshold_witness:
  "sample_query [Some (StrV (u ''a'')), Some (StrV (u ''0'')), Some (StrV (u ''b''))] \<noteq> []
   \<and> infer_column_type (\<lambda>s. False) example_str
        [Some (StrV (u ''a'')), Some (StrV (u ''0'')), Some (StrV (u ''b''))] = Inr ''VARCHAR''"
proof -
  let ?cs = "[Some (StrV (u ''a'')), Some (StrV (u ''0'')), Some (StrV (u ''b''))]"
  let ?rates = "[(''INTEGER'', 1 / 3), (''FLOAT'', 0), (''DATE'', 0), (''BOOLEAN'', 1 / 3),
                 (''VARCHAR'', 0 :: rat)]"
  have a: "sample_query ?cs \<noteq> []" by code_simp
  have b: "success_rates (count_types (\<lambda>s. False) (map example_str (sample_query ?cs)))
             (length (sample_query ?cs)) = Inr ?rates" by code_simp
  have c: "Max (set (map snd ?rates)) < 1 / 2" by simp
  show ?thesis using a infer_column_type_below_threshold [OF a b c] by simp
qed

text \<open>
  Claim C10: the success rates are computed by a division by the sample length that is
  not guarded. A column with at least one non-null value gets one of the five types; a
  column without a non-null value, and so every column of a relation without rows, makes
  the function raise \<open>ZeroDivisionError\<close>.
\<close>

theorem infer_column_type_empty_sample:
  "((\<exists>v. Some v \<in> set cs) \<longrightarrow>
      (\<exists>ty \<in> set [''INTEGER'', ''FLOAT'', ''DATE'', ''BOOLEAN'', ''VARCHAR''].
         infer_column_type P str cs = Inr ty))
   \<and> ((\<forall>c \<in> set cs. c = None) \<longrightarrow> infer_column_type P str cs = Inl ZeroDivisionError)"
proof (intro conjI impI)
  assume "\<exists>v. Some v \<in> set cs"
  then have "sample_query cs \<noteq> []" by (auto simp: sample_query_empty)
  then have "map str (sample_query cs) \<noteq> []" by simp
  from infer_sample_type_returns [OF this]
  show "\<exists>ty \<in> set [''INTEGER'', ''FLOAT'', ''DATE'', ''BOOLEAN'', ''VARCHAR''].
         infer_column_type P str cs = Inr ty"
    by (simp add: infer_column_type_def)
next
  assume "\<forall>c \<in> set cs. c = None"
  then have "sample_query cs = []" by (simp add: sample_query_empty)
  then show "infer_column_type P str cs = Inl ZeroDivisionError"
    by (simp add: infer_column_type_def infer_sample_type_empty)
qed

theorem infer_column_type_empty_sample_witness:
  "infer_column_type (\<lambda>s. False) example_str [None, Some (IntV 3)] = Inr ''INTEGER''
   \<and> infer_column_type (\<lambda>s. False) example_str [None, None] = Inl ZeroDivisionError"
proof -
  have a: "infer_column_type (\<lambda>s. False) example_str [None, Some (IntV 3)] = Inr ''INTEGER''"
    by code_simp
  show ?thesis
    using a infer_column_type_empty_sample [of "[None, Some (IntV 3)]" "\<lambda>s. False" example_str]
      infer_column_type_empty_sample [of "[None, None]" "\<lambda>s. False" example_str]
    by simp
qed

section \<open>Properties of the outlier filter\<close>

lemma z_score_squares:
  assumes "0 < v" and "0 \<le> z"
  shows "(\<bar>d\<bar> / sqrt v < z) = (d\<^sup>2 < z\<^sup>2 * v)"
proof -
  have "(\<bar>d\<bar> / sqrt v < z) = (\<bar>d\<bar> < z * sqrt v)"
    using assms(1) by (simp add: pos_divide_less_eq)
  also have "\<dots> = (sqrt (d\<^sup>2) < sqrt (z\<^sup>2 * v))"
    using assms(2) by (simp add: real_sqrt_mult)
  also have "\<dots> = (d\<^sup>2 < z\<^sup>2 * v)"
    by (rule real_sqrt_less_iff)
  finally show ?thesis .
qed

lemma scenario3_values: "numeric_values scenario3 = Some [9, 10, 11, 10, 100000]"
  by (simp add: scenario3_def numeric_values_def non_null_def is_num_def num_def)

lemma scenario3_var: "var_samp [9, 10, 11, 10, 100000] = 3999200041 / 2"
  by (simp add: var_samp_def power2_eq_square)

lemma scenario3_stddev: "sql_stddev_samp [9, 10, 11, 10, 100000] = Some (sqrt (3999200041 / 2))"
  by (simp add: sql_stddev_samp_def scenario3_var)

lemma scenario3_avg: "sql_avg [9, 10, 11, 10, 100000] = Some 20008"
  by (simp add: sql_avg_def)

lemma scenario3_clauses: "ty \<in> set [''INTEGER'', ''BIGINT'', ''FLOAT'', ''DOUBLE''] \<Longrightarrow>
  z_score_clauses [\<lparr>cname = n, ctype = ty, cells = scenario3\<rparr>] = Inr [(scenario3, 20008, sqrt (3999200041 / 2))]"
  by (simp add: scenario3_values scenario3_stddev scenario3_avg del: set_simps)

lemma z_score_squares_pos:
  assumes "0 < v" and "0 \<le> z" and "0 \<le> a"
  shows "(a / sqrt v < z) = (a\<^sup>2 < z\<^sup>2 * v)"
  using z_score_squares [OF assms(1,2), of a] assms(3) by simp

lemma scenario3_clause_values: "map (z_score_clause 20008 (sqrt (3999200041 / 2)) 3) scenario3
    = [Some True, Some True, Some True, Some True, Some True]"
  by (simp add: scenario3_def z_score_clause_def num_def z_score_squares_pos)

lemma scenario3_filter: "z_score_filter [(scenario3, 20008, sqrt (3999200041 / 2))] 3 5
   = [Some True, Some True, Some True, Some True, Some True]"
  by (simp add: z_score_filter_def scenario3_clause_values) (simp add: map2_def sql_and_def eval_nat_numeral)

lemma scenario3_keep: "keep_rows [True, True, True, True, True] [\<lparr>cname = n, ctype = ty, cells = scenario3\<rparr>] = [\<lparr>cname = n, ctype = ty, cells = scenario3\<rparr>]"
  by (simp add: keep_rows_def scenario3_def)

lemma scenario3_outliers:
  assumes "ty \<in> set [''INTEGER'', ''BIGINT'', ''FLOAT'', ''DOUBLE'']"
    and "conn t = Some [\<lparr>cname = n, ctype = ty, cells = scenario3\<rparr>]"
  shows "handle_outliers conn t 3 = Inr (conn, t)"
proof -
  have "conn(t \<mapsto> [\<lparr>cname = n, ctype = ty, cells = scenario3\<rparr>]) = conn"
    using assms(2) by (simp add: fun_upd_idem)
  moreover have "nrows [\<lparr>cname = n, ctype = ty, cells = scenario3\<rparr>] = 5"
    by (simp add: nrows_def scenario3_def)
  ultimately show ?thesis
    using assms(2) scenario3_clauses [OF assms(1), of n]
    by (simp add: handle_outliers_def scenario3_filter scenario3_keep)
qed

text \<open>
  Claim C1, as the code has it. On a relation whose only column is numeric and holds
  9, 10, 11, 10 and 100000, the filter with threshold 3 deletes nothing: the mean is
  20008, the sample deviation is the root of 1999600020.5, about 44717, and the z-score
  of 100000 is about 1.79. The filter is true on all five rows and the connection is
  left as it was.
\<close>

theorem handle_outliers_scenario3:
  assumes "ty \<in> set [''INTEGER'', ''BIGINT'', ''FLOAT'', ''DOUBLE'']"
    and "conn t = Some [\<lparr>cname = n, ctype = ty, cells = scenario3\<rparr>]"
  shows "handle_outliers conn t 3 = Inr (conn, t)
       \<and> z_score_clause 20008 (sqrt (3999200041 / 2)) 3 (Some (IntV 100000)) = Some True"
proof -
  have "z_score_clause 20008 (sqrt (3999200041 / 2)) 3 (Some (IntV 100000)) = Some True"
    by (simp add: z_score_clause_def num_def z_score_squares_pos)
  moreover have "handle_outliers conn t 3 = Inr (conn, t)"
    using assms by (rule scenario3_outliers)
  ultimately show ?thesis by simp
qed

theorem handle_outliers_scenario3_witness:
  "''BIGINT'' \<in> set [''INTEGER'', ''BIGINT'', ''FLOAT'', ''DOUBLE'']
   \<and> handle_outliers
        (Map.empty(u ''t'' \<mapsto> [\<lparr>cname = u ''x'', ctype = ''BIGINT'', cells = scenario3\<rparr>]))
        (u ''t'') 3
      = Inr (Map.empty(u ''t'' \<mapsto> [\<lparr>cname = u ''x'', ctype = ''BIGINT'', cells = scenario3\<rparr>]),
             u ''t'')"
proof -
  have a: "''BIGINT'' \<in> set [''INTEGER'', ''BIGINT'', ''FLOAT'', ''DOUBLE'']" by simp
  show ?thesis
    using a handle_outliers_scenario3 [OF a, of
        "Map.empty(u ''t'' \<mapsto> [\<lparr>cname = u ''x'', ctype = ''BIGINT'', cells = scenario3\<rparr>])"
        "u ''t''" "u ''x''"]
    by simp
qed

text \<open>
  Claim C1, as stated, fails: after the filter has run with threshold 3, the relation
  still has its five rows, the one with 100000 among them.
\<close>

theorem handle_outliers_scenario3_counterexample:
  "(case handle_outliers
          (Map.empty(u ''t'' \<mapsto> [\<lparr>cname = u ''x'', ctype = ''BIGINT'', cells = scenario3\<rparr>]))
          (u ''t'') 3 of
      Inl e \<Rightarrow> False
    | Inr (conn, name) \<Rightarrow>
        conn name = Some [\<lparr>cname = u ''x'', ctype = ''BIGINT'',
                          cells = [Some (IntV 9), Some (IntV 10), Some (IntV 11),
                                   Some (IntV 10), Some (IntV 100000)]\<rparr>])"
proof -
  have "handle_outliers
          (Map.empty(u ''t'' \<mapsto> [\<lparr>cname = u ''x'', ctype = ''BIGINT'', cells = scenario3\<rparr>]))
          (u ''t'') 3
      = Inr (Map.empty(u ''t'' \<mapsto> [\<lparr>cname = u ''x'', ctype = ''BIGINT'', cells = scenario3\<rparr>]),
             u ''t'')"
    by (rule scenario3_outliers) simp_all
  then show ?thesis by (simp add: scenario3_def)
qed

section \<open>Row and column counts through the pipeline\<close>

lemma wf_has_rows: "wf_relation rel \<Longrightarrow> has_rows (nrows rel) rel"
  by (simp add: wf_relation_def has_rows_def)

lemma nrows_le: "has_rows n rel \<Longrightarrow> nrows rel \<le> n"
  by (cases rel) (simp_all add: has_rows_def nrows_def)

lemma nrows_eq: "has_rows n rel \<Longrightarrow> rel \<noteq> [] \<Longrightarrow> nrows rel = n"
  by (cases rel) (simp_all add: has_rows_def nrows_def)

lemma has_rows_filter: "has_rows n rel \<Longrightarrow> has_rows n (filter Q rel)"
  by (induction rel) (simp_all add: has_rows_def)

lemma length_kept: "length (filter fst (zip keep cs)) = length (filter id (take (length cs) keep))"
proof (induction keep arbitrary: cs)
  case Nil
  then show ?case by simp
next
  case (Cons k keep)
  then show ?case by (cases cs) simp_all
qed

lemma keep_rows_has_rows:
  "has_rows n rel \<Longrightarrow> has_rows (length (filter id (take n keep))) (keep_rows keep rel)"
  by (induction rel) (simp_all add: has_rows_def keep_rows_def length_kept)

lemma kept_le: "length (filter id (take n keep)) \<le> n"
proof -
  have "length (filter id (take n keep)) \<le> length (take n keep)" by (rule length_filter_le)
  then show ?thesis by simp
qed

lemma length_keep_rows: "length (keep_rows keep rel) = length rel"
  by (simp add: keep_rows_def)

lemma drop_null_columns_filter:
  "drop_null_columns E rel cols = Inr r \<Longrightarrow> \<exists>Q. r = filter Q rel"
proof (induction cols arbitrary: rel)
  case Nil
  then have "r = filter (\<lambda>c. True) rel" by simp
  then show ?case by blast
next
  case (Cons c cols)
  show ?case
  proof (cases "count_not_null (cells c) = 0")
    case True
    with Cons.prems have "drop_null_columns E (filter (\<lambda>d. cname d \<noteq> cname c) rel) cols = Inr r"
      by (simp split: if_splits)
    from Cons.IH [OF this] obtain Q where "r = filter Q (filter (\<lambda>d. cname d \<noteq> cname c) rel)"
      by blast
    then have "r = filter (\<lambda>d. cname d \<noteq> cname c \<and> Q d) rel" by (simp add: conj_commute)
    then show ?thesis by blast
  next
    case False
    with Cons.prems have "drop_null_columns E rel cols = Inr r" by simp
    from Cons.IH [OF this] show ?thesis .
  qed
qed

lemma impute_column_cells:
  "impute_column E c ty = Inr c' \<Longrightarrow> length (cells c') = length (cells c) \<and> cname c' = cname c \<and> ctype c' = ctype c"
  by (auto simp: impute_column_def fillna_def Let_def split: if_splits sum.splits option.splits)

lemma impute_columns_rows:
  "impute_columns E zs = Inr df \<Longrightarrow>
     length df = length zs \<and> (has_rows n (map fst zs) \<longrightarrow> has_rows n df)"
proof (induction zs arbitrary: df)
  case Nil
  then show ?case by (simp add: has_rows_def)
next
  case (Cons z zs)
  obtain c ty where z: "z = (c, ty)" by (cases z)
  from Cons.prems z obtain c' df' where c': "impute_column E c ty = Inr c'"
    and df': "impute_columns E zs = Inr df'" and df: "df = c' # df'"
    by (auto split: sum.splits)
  from Cons.IH [OF df'] impute_column_cells [OF c'] z df show ?case
    by (simp add: has_rows_def)
qed

lemma has_rows_zip_fst: "has_rows n rel \<Longrightarrow> has_rows n (map fst (zip rel tys))"
proof (induction rel arbitrary: tys)
  case Nil
  then show ?case by (simp add: has_rows_def)
next
  case (Cons c rel)
  then show ?case by (cases tys) (simp_all add: has_rows_def)
qed

lemma handle_missing_data_counts:
  assumes "conn name = Some rel" and "has_rows n rel"
    and "handle_missing_data E conn name = Inr (conn', name')"
  shows "\<exists>rel' m. conn' name' = Some rel' \<and> has_rows m rel' \<and> m \<le> n \<and> length rel' \<le> length rel"
proof -
  from assms(1,3) obtain rel1 where d: "drop_null_columns E rel rel = Inr rel1"
    by (auto simp: handle_missing_data_def split: sum.splits)
  then obtain Q where Q: "rel1 = filter Q rel" using drop_null_columns_filter by blast
  have h1: "has_rows n rel1" and l1: "length rel1 \<le> length rel"
    using Q assms(2) by (simp_all add: has_rows_filter)
  let ?keep = "map Not (all_null_rows rel1)"
  let ?rel2 = "keep_rows ?keep rel1"
  let ?m = "length (filter id (take n ?keep))"
  have h2: "has_rows ?m ?rel2" using h1 by (rule keep_rows_has_rows)
  have m: "?m \<le> n" by (rule kept_le)
  have l2: "length ?rel2 \<le> length rel" using l1 by (simp add: length_keep_rows)
  show ?thesis
  proof (cases "rel1 = []")
    case True
    with assms(1,3) d have "conn' name' = Some []"
      by (auto simp: handle_missing_data_def)
    then show ?thesis by (auto simp: has_rows_def)
  next
    case False
    show ?thesis
    proof (cases "nrows ?rel2 = 0")
      case True
      with assms(1,3) d False have "conn' name' = Some ?rel2"
        by (auto simp: handle_missing_data_def Let_def)
      with h2 m l2 show ?thesis by blast
    next
      case nz: False
      with assms(1,3) d False obtain df where
        df: "impute_columns E (zip ?rel2 (map ctype rel)) = Inr df"
        and c: "conn' name' = Some df"
        by (auto simp: handle_missing_data_def Let_def split: sum.splits if_splits)
      have "has_rows ?m (map fst (zip ?rel2 (map ctype rel)))"
        using h2 by (rule has_rows_zip_fst)
      with impute_columns_rows [OF df, of ?m]
      have "has_rows ?m df" and "length df \<le> length ?rel2" by simp_all
      with c m l2 show ?thesis by (meson le_trans)
    qed
  qed
qed

lemma handle_outliers_counts:
  assumes "conn name = Some rel" and "has_rows n rel"
    and "handle_outliers conn name z = Inr (conn', name')"
  shows "\<exists>rel' m. conn' name' = Some rel' \<and> has_rows m rel' \<and> m \<le> n \<and> length rel' \<le> length rel"
proof -
  from assms(1,3) obtain clauses where c: "z_score_clauses rel = Inr clauses"
    by (auto simp: handle_outliers_def split: sum.splits)
  show ?thesis
  proof (cases "clauses = []")
    case True
    with assms c have "conn' name' = Some rel" by (auto simp: handle_outliers_def)
    with assms(2) show ?thesis by blast
  next
    case False
    let ?keep = "map (\<lambda>b. b \<noteq> Some False) (z_score_filter clauses z (nrows rel))"
    from False assms(1,3) c have "conn' name' = Some (keep_rows ?keep rel)"
      by (auto simp: handle_outliers_def)
    moreover have "has_rows (length (filter id (take n ?keep))) (keep_rows ?keep rel)"
      using assms(2) by (rule keep_rows_has_rows)
    moreover have "length (filter id (take n ?keep)) \<le> n" by (rule kept_le)
    moreover have "length (keep_rows ?keep rel) \<le> length rel" by (simp add: length_keep_rows)
    ultimately show ?thesis by blast
  qed
qed

subsection \<open>Schema statements\<close>

lemma find_column_Some: "find_column rel col = Some c \<Longrightarrow> c \<in> set rel \<and> cname c = col"
  by (auto simp: find_column_def find_Some_iff)

lemma add_column_Inr:
  assumes "add_column E rel name ty = Inr r" and "has_rows n rel" and "rel \<noteq> []"
  shows "length r = Suc (length rel) \<and> has_rows n r \<and> set (map cname rel) \<subseteq> set (map cname r)"
proof -
  have "nrows rel = n" using assms(2,3) by (rule nrows_eq)
  with assms(1,2) show ?thesis
    by (auto simp: add_column_def has_rows_def split: if_splits)
qed

lemma collect_length: "collect xs = Inr ys \<Longrightarrow> length ys = length xs"
proof (induction xs arbitrary: ys)
  case Nil
  then show ?case by simp
next
  case (Cons x xs)
  then show ?case by (auto split: sum.splits)
qed

lemma cast_expression_length:
  "cast_expression E ty v cs = Inr new_cells \<Longrightarrow> length new_cells = length cs"
  by (auto simp: cast_expression_def dest: collect_length split: if_splits option.splits)

lemma update_column_Inr:
  assumes "update_column E rel col col_new ty v = Inr r" and "has_rows n rel"
  shows "length r = length rel \<and> has_rows n r \<and> map cname r = map cname rel"
proof -
  from assms(1) obtain c new_cells where c: "find_column rel col = Some c"
    and n: "cast_expression E ty v (cells c) = Inr new_cells"
    and r: "r = map (\<lambda>d. if cname d = col_new then d\<lparr>cells := new_cells\<rparr> else d) rel"
    by (auto simp: update_column_def split: option.splits if_splits sum.splits)
  have "c \<in> set rel" using c by (simp add: find_column_Some)
  then have "length (cells c) = n" using assms(2) by (auto simp: has_rows_def list_all_iff)
  then have "length new_cells = n" using cast_expression_length [OF n] by simp
  then have "has_rows n r"
    using assms(2) unfolding r has_rows_def by (induction rel) auto
  moreover have "map cname r = map cname rel" unfolding r by (induction rel) auto
  ultimately show ?thesis unfolding r by simp
qed

lemma drop_column_Inr:
  assumes "drop_column E rel name = Inr r" and "has_rows n rel"
  shows "length r < length rel \<and> has_rows n r"
proof -
  from assms(1) have m: "name \<in> set (map cname rel)" and r: "r = filter (\<lambda>c. cname c \<noteq> name) rel"
    by (auto simp: drop_column_def split: if_splits)
  from m have "length (filter (\<lambda>c. cname c \<noteq> name) rel) < length rel"
    by (intro length_filter_less [where x = "SOME c. c \<in> set rel \<and> cname c = name"])
       (auto intro: someI2)
  with r assms(2) show ?thesis by (simp add: has_rows_filter)
qed

lemma drop_column_Inl:
  "drop_column E rel name = Inl e \<Longrightarrow> name \<in> set (map cname rel) \<Longrightarrow> length rel \<le> 1"
  by (auto simp: drop_column_def split: if_splits)

lemma rename_column_Inr:
  assumes "rename_column E rel old new = Inr r" and "has_rows n rel"
  shows "length r = length rel \<and> has_rows n r"
proof -
  from assms(1) have r: "r = map (\<lambda>c. if cname c = old then c\<lparr>cname := new\<rparr> else c) rel"
    by (auto simp: rename_column_def split: if_splits)
  have "has_rows n r" using assms(2) unfolding r has_rows_def by (induction rel) auto
  then show ?thesis unfolding r by simp
qed

lemma migrate_column_counts:
  assumes "col \<in> set (map cname rel)" and "has_rows n rel"
  shows "length (migrate_column E rel col ty v) \<le> length rel
       \<and> has_rows n (migrate_column E rel col ty v)"
proof -
  let ?new = "col @ u ''_new''"
  define rel1 where "rel1 = (case add_column E rel ?new ty of Inl e \<Rightarrow> rel | Inr r \<Rightarrow> r)"
  define rel2 where "rel2 = (case update_column E rel1 col ?new ty v of Inl e \<Rightarrow> rel1 | Inr r \<Rightarrow> r)"
  have ne: "rel \<noteq> []" using assms(1) by auto
  have 1: "has_rows n rel1 \<and> set (map cname rel) \<subseteq> set (map cname rel1)
           \<and> (length rel1 = length rel \<or> length rel1 = Suc (length rel))"
    using add_column_Inr [OF _ assms(2) ne] assms(2)
    by (cases "add_column E rel ?new ty") (auto simp: rel1_def)
  have 2: "has_rows n rel2 \<and> map cname rel2 = map cname rel1 \<and> length rel2 = length rel1"
    using update_column_Inr [of E rel1 col ?new ty v _ n] 1
    by (cases "update_column E rel1 col ?new ty v") (auto simp: rel2_def)
  have colin2: "col \<in> set (map cname rel2)" using assms(1) 1 2 by auto
  have m: "migrate_column E rel col ty v = (case drop_column E rel2 col of
             Inl e \<Rightarrow> rel2
           | Inr r \<Rightarrow> (case rename_column E r ?new col of Inl e \<Rightarrow> r | Inr r' \<Rightarrow> r'))"
    unfolding rel2_def rel1_def migrate_column_def Let_def by (rule refl)
  show ?thesis
  proof (cases "drop_column E rel2 col")
    case (Inl e)
    then have "length rel2 \<le> 1" using colin2 by (rule drop_column_Inl)
    moreover have "1 \<le> length rel" using ne by (cases rel) auto
    ultimately have "length rel2 \<le> length rel" by simp
    with Inl m 2 show ?thesis by simp
  next
    case (Inr r)
    from drop_column_Inr [OF Inr] 2 have r: "length r < length rel2" "has_rows n r" by auto
    then have lr: "length r \<le> length rel" using 1 2 by auto
    show ?thesis
    proof (cases "rename_column E r ?new col")
      case (Inl e)
      with Inr m r lr show ?thesis by simp
    next
      case r': (Inr r')
      from rename_column_Inr [OF r' r(2)] Inr r' m lr show ?thesis by simp
    qed
  qed
qed

lemma set_datatype_counts:
  assumes "set_datatype E rel col = Inr (rel', ty)" and "has_rows n rel"
  shows "length rel' \<le> length rel \<and> has_rows n rel'"
proof -
  from assms(1) obtain c v where c: "find_column rel col = Some c"
    and rel': "rel' = migrate_column E rel col ty v"
    by (auto simp: set_datatype_def split: option.splits sum.splits)
  have "col \<in> set (map cname rel)" using find_column_Some [OF c] by auto
  from migrate_column_counts [OF this assms(2)] rel' show ?thesis by simp
qed

lemma set_datatypes_counts:
  "set_datatypes E rel cols = Inr (rel', inferred) \<Longrightarrow> has_rows n rel \<Longrightarrow>
     length rel' \<le> length rel \<and> has_rows n rel'"
proof (induction cols arbitrary: rel inferred)
  case Nil
  then show ?case by simp
next
  case (Cons col cols)
  from Cons.prems(1) obtain rel1 ty inferred1 where
    1: "set_datatype E rel col = Inr (rel1, ty)" and
    2: "set_datatypes E rel1 cols = Inr (rel', inferred1)"
    by (auto split: sum.splits)
  from set_datatype_counts [OF 1 Cons.prems(2)] have a: "length rel1 \<le> length rel" "has_rows n rel1"
    by auto
  from Cons.IH [OF 2 a(2)] a(1) show ?case by auto
qed

lemma infer_and_set_datatypes_counts:
  assumes "conn name = Some rel" and "has_rows n rel"
    and "infer_and_set_datatypes E conn name = Inr (conn', name', inferred)"
  shows "name' = name \<and> (\<exists>rel'. conn' name = Some rel' \<and> has_rows n rel' \<and> length rel' \<le> length rel)"
proof -
  from assms(1,3) obtain rel' where s: "set_datatypes E rel (map cname rel) = Inr (rel', inferred)"
    and c: "conn' = conn(name \<mapsto> rel')" and n: "name' = name"
    by (auto simp: infer_and_set_datatypes_def split: sum.splits)
  from set_datatypes_counts [OF s assms(2)] c n show ?thesis by simp
qed

lemma sanitize_columns_counts:
  "sanitize_columns E rel names = Inr rel' \<Longrightarrow> has_rows n rel \<Longrightarrow>
     length rel' = length rel \<and> has_rows n rel'"
proof (induction names arbitrary: rel)
  case Nil
  then show ?case by simp
next
  case (Cons old names)
  from Cons.prems(1) obtain rel1 where
    1: "rename_column E rel old (sanitize_column_name old) = Inr rel1" and
    2: "sanitize_columns E rel1 names = Inr rel'"
    by (auto split: sum.splits)
  from rename_column_Inr [OF 1 Cons.prems(2)] Cons.IH [OF 2] show ?case by auto
qed

lemma pipeline_stages:
  assumes "clean_and_store_data E conn (Some raw) file_name timestamp temp_suffix
           = Inr (conn', res)"
  shows "\<exists>rel conn2 n2 conn3 n3 conn4 r4 final.
      sanitize_columns E raw (map cname raw) = Inr rel
    \<and> handle_missing_data E
         (conn(u ''tmp_'' @ upload_filename file_name @ [95] @ timestamp @ [95] @ temp_suffix \<mapsto> rel))
         (u ''tmp_'' @ upload_filename file_name @ [95] @ timestamp @ [95] @ temp_suffix)
        = Inr (conn2, n2)
    \<and> handle_outliers conn2 n2 3 = Inr (conn3, n3)
    \<and> infer_and_set_datatypes E conn3 n3 = Inr (conn4, r4)
    \<and> conn4 n3 = Some final
    \<and> conn' = (conn4(upload_filename file_name @ [95] @ timestamp @ [95] @ temp_suffix \<mapsto> final))
                (u ''tmp_'' @ upload_filename file_name @ [95] @ timestamp @ [95] @ temp_suffix := None)
    \<and> res = Some (upload_filename file_name @ [95] @ timestamp @ [95] @ temp_suffix, sample_of final)"
proof -
  let ?uid = "upload_filename file_name @ [95] @ timestamp @ [95] @ temp_suffix"
  let ?rn = "u ''tmp_'' @ ?uid"
  have g: "conn ?rn = None \<and> identifier_ok E ?rn"
    using assms by (auto simp: clean_and_store_data_def Let_def split: if_splits)
  obtain rel where s: "sanitize_columns E raw (map cname raw) = Inr rel"
    using assms g by (cases "sanitize_columns E raw (map cname raw)")
      (auto simp: clean_and_store_data_def Let_def)
  obtain conn2 n2 where m: "handle_missing_data E (conn(?rn \<mapsto> rel)) ?rn = Inr (conn2, n2)"
    using assms g s by (cases "handle_missing_data E (conn(?rn \<mapsto> rel)) ?rn")
      (auto simp: clean_and_store_data_def Let_def)
  obtain conn3 n3 where out: "handle_outliers conn2 n2 3 = Inr (conn3, n3)"
    using assms g s m by (cases "handle_outliers conn2 n2 3")
      (auto simp: clean_and_store_data_def Let_def)
  obtain conn4 r4 where i: "infer_and_set_datatypes E conn3 n3 = Inr (conn4, r4)"
    using assms g s m out by (cases "infer_and_set_datatypes E conn3 n3")
      (auto simp: clean_and_store_data_def Let_def)
  obtain final where f: "conn4 n3 = Some final"
    using assms g s m out i by (cases "conn4 n3")
      (auto simp: clean_and_store_data_def Let_def)
  have "conn' = (conn4(?uid \<mapsto> final))(?rn := None) \<and> res = Some (?uid, sample_of final)"
    using assms g s m out i f
    by (auto simp: clean_and_store_data_def Let_def split: if_splits)
  with s m out i f show ?thesis by blast
qed

text \<open>
  Claim C9: when the pipeline returns an upload identifier, the relation stored under it
  has at most as many columns and at most as many rows as the relation parsed from the
  file.
\<close>

theorem pipeline_counts_monotone:
  assumes "wf_relation raw"
    and "clean_and_store_data E conn (Some raw) file_name timestamp temp_suffix
           = Inr (conn', Some (upload_id, sample))"
  shows "\<exists>final. conn' upload_id = Some final
           \<and> ncols final \<le> ncols raw \<and> nrows final \<le> nrows raw"
proof -
  define uid where "uid = upload_filename file_name @ [95] @ timestamp @ [95] @ temp_suffix"
  define rn where "rn = u ''tmp_'' @ uid"
  from pipeline_stages [OF assms(2)] obtain rel conn2 n2 conn3 n3 conn4 r4 final where
    s: "sanitize_columns E raw (map cname raw) = Inr rel" and
    m: "handle_missing_data E (conn(rn \<mapsto> rel)) rn = Inr (conn2, n2)" and
    out: "handle_outliers conn2 n2 3 = Inr (conn3, n3)" and
    i: "infer_and_set_datatypes E conn3 n3 = Inr (conn4, r4)" and
    f: "conn4 n3 = Some final" and
    c': "conn' = (conn4(uid \<mapsto> final))(rn := None)" and
    u: "Some (upload_id, sample) = Some (uid, sample_of final)"
    unfolding uid_def rn_def by blast
  obtain r4n r4i where r4: "r4 = (r4n, r4i)" by (cases r4)
  have h0: "has_rows (nrows raw) raw" using assms(1) by (rule wf_has_rows)
  from sanitize_columns_counts [OF s h0]
  have h1: "has_rows (nrows raw) rel" and l1: "length rel = length raw" by auto
  have "(conn(rn \<mapsto> rel)) rn = Some rel" by simp
  from handle_missing_data_counts [OF this h1 m] obtain rel2 m2 where
    2: "conn2 n2 = Some rel2" "has_rows m2 rel2" "m2 \<le> nrows raw" "length rel2 \<le> length rel"
    by blast
  from handle_outliers_counts [OF 2(1,2) out] obtain rel3 m3 where
    3: "conn3 n3 = Some rel3" "has_rows m3 rel3" "m3 \<le> m2" "length rel3 \<le> length rel2"
    by blast
  from infer_and_set_datatypes_counts [OF 3(1,2) i [unfolded r4]] obtain rel4 where
    4: "conn4 n3 = Some rel4" "has_rows m3 rel4" "length rel4 \<le> length rel3"
    by blast
  from 4(1) f have fin: "final = rel4" by simp
  have "length rn \<noteq> length uid" by (simp add: rn_def u_def)
  then have "uid \<noteq> rn" by auto
  then have "conn' upload_id = Some final" using u by (simp add: c')
  moreover have "ncols final \<le> ncols raw"
    using 4(3) 3(4) 2(4) l1 by (simp add: ncols_def fin)
  moreover have "nrows final \<le> nrows raw"
    using nrows_le [OF 4(2)] 3(3) 2(3) by (simp add: fin)
  ultimately show ?thesis by blast
qed

lemma people_wf: "wf_relation people" by code_simp

theorem pipeline_counts_monotone_witness:
  "wf_relation people
   \<and> (case clean_and_store_data example_env Map.empty (Some people) (u ''people.csv'')
             (u ''1700000000'') (u ''ab12cd34'') of
        Inl e \<Rightarrow> False
      | Inr (conn', res) \<Rightarrow>
          res = Some (u ''people_1700000000_ab12cd34'',
                  [\<lparr>cname = u ''age'', ctype = ''INTEGER'',
                    cells = [Some (IntV 25), Some (IntV 30), Some (IntV 28)]\<rparr>])
          \<and> (\<exists>final. conn' (u ''people_1700000000_ab12cd34'') = Some final
                \<and> ncols final \<le> ncols people \<and> nrows final \<le> nrows people))"
proof -
  let ?UID = "u ''people_1700000000_ab12cd34''"
  let ?RN = "u ''tmp_people_1700000000_ab12cd34''"
  let ?RNC = "u ''tmp_people_1700000000_ab12cd34_cleaned''"
  let ?p1 = "[\<lparr>cname = u ''age'', ctype = ''VARCHAR'',
              cells = [Some (StrV (u ''25'')), Some (StrV (u ''30'')), None, Some (StrV (u ''forty''))]\<rparr>,
             \<lparr>cname = u ''note'', ctype = ''VARCHAR'', cells = [None, None, None, None]\<rparr>]"
  let ?p2 = "[\<lparr>cname = u ''age'', ctype = ''VARCHAR'',
              cells = [Some (StrV (u ''25'')), Some (StrV (u ''30'')), Some (StrV (u ''forty''))]\<rparr>]"
  let ?p4 = "[\<lparr>cname = u ''age'', ctype = ''INTEGER'',
                    cells = [Some (IntV 25), Some (IntV 30), Some (IntV 28)]\<rparr>]"
  let ?c2 = "(Map.empty(?RN \<mapsto> ?p2))(?RNC \<mapsto> ?p2)"
  have wf: "wf_relation people" by code_simp
  have uid: "upload_filename (u ''people.csv'') @ [95] @ u ''1700000000'' @ [95] @ u ''ab12cd34'' = ?UID"
    by code_simp
  have rn: "u ''tmp_'' @ ?UID = ?RN" by code_simp
  have rnc: "?RN @ u ''_cleaned'' = ?RNC" by code_simp
  have ne: "?RNC \<noteq> ?RN" "?UID \<noteq> ?RN" "?UID \<noteq> ?RNC" by code_simp+
  have ok: "identifier_ok example_env ?RN" "identifier_ok example_env ?UID" by code_simp+
  have s: "sanitize_columns example_env people (map cname people) = Inr ?p1" by code_simp
  have d: "drop_null_columns example_env ?p1 ?p1 = Inr [hd ?p1]" by code_simp
  have k: "keep_rows (map Not (all_null_rows [hd ?p1])) [hd ?p1] = ?p2" by code_simp
  have n: "nrows ?p2 \<noteq> 0" by code_simp
  have im: "impute_columns example_env (zip ?p2 (map ctype ?p1)) = Inr ?p2" by code_simp
  have m: "handle_missing_data example_env (Map.empty(?RN \<mapsto> ?p1)) ?RN = Inr (?c2, ?RNC)"
    using d k n im rnc ne by (simp add: handle_missing_data_def Let_def)
  have o: "handle_outliers ?c2 ?RNC 3 = Inr (?c2, ?RNC)"
    by (simp add: handle_outliers_def)
  have sd: "set_datatypes example_env ?p2 (map cname ?p2) = Inr (?p4, [(u ''age'', ''INTEGER'')])"
    by code_simp
  have i: "infer_and_set_datatypes example_env ?c2 ?RNC
             = Inr (?c2(?RNC \<mapsto> ?p4), ?RNC, [(u ''age'', ''INTEGER'')])"
    using sd by (simp add: infer_and_set_datatypes_def)
  have sm: "sample_of ?p4 = ?p4" by code_simp
  have run: "clean_and_store_data example_env Map.empty (Some people) (u ''people.csv'')
             (u ''1700000000'') (u ''ab12cd34'')
           = Inr (((?c2(?RNC \<mapsto> ?p4))(?UID \<mapsto> ?p4))(?RN := None), Some (?UID, ?p4))"
    unfolding clean_and_store_data_def Let_def uid rn option.case
    using ok s m o i sm ne by simp
  from pipeline_counts_monotone [OF wf run] show ?thesis using wf run by simp
qed

section \<open>Properties of the missing-data handler\<close>















text \<open>
  Claim C3 on \<open>gap_table\<close>. Column \<open>a\<close> is empty and is dropped, but its type stays
  in \<open>types\<close>, so \<open>zip(columns, types)\<close> pairs the numeric column \<open>b\<close> with the type
  VARCHAR of \<open>a\<close>: the gap of \<open>b\<close> is filled with the most frequent value 1, where the
  median of \<open>b\<close> is 3.
\<close>

theorem handle_missing_data_misaligned_types:
  "(case handle_missing_data example_env (Map.empty(u ''t'' \<mapsto> gap_table)) (u ''t'') of
      Inl e \<Rightarrow> False
    | Inr (conn', name') \<Rightarrow>
        conn' name' =
          Some [\<lparr>cname = u ''b'', ctype = ''BIGINT'',
                  cells = [Some (IntV 1), Some (IntV 1), Some (IntV 1), Some (IntV 5),
                           Some (IntV 6)]\<rparr>,
                \<lparr>cname = u ''c'', ctype = ''BIGINT'',
                  cells = [Some (IntV 7), Some (IntV 7), Some (IntV 7), Some (IntV 7),
                           Some (IntV 7)]\<rparr>])
   \<and> sql_median example_env [Some (IntV 1), Some (IntV 1), None, Some (IntV 5), Some (IntV 6)]
       = Inr (Some (FloatV 3))"
  by code_simp

text \<open>On an engine that refuses to drop the last column of a table, a table whose
  columns are all empty makes the handler raise.\<close>

lemma handle_missing_data_last_column:
  "(case handle_missing_data example_env
           (Map.empty(u ''t'' \<mapsto> [\<lparr>cname = u ''a'', ctype = ''VARCHAR'', cells = []\<rparr>]))
           (u ''t'') of
      Inl e \<Rightarrow> e = EngineError
    | Inr p \<Rightarrow> False)"
  by code_simp

section \<open>The pipeline when every row is removed\<close>

lemma z_score_clause_sqrt:
  assumes "0 < v" and "0 \<le> z"
  shows "z_score_clause a (sqrt v) z = z_score_clause_sq a v z"
  using z_score_squares [OF assms]
  by (intro ext) (simp add: z_score_clause_def z_score_clause_sq_def split: option.splits)

lemma z_score_clauses_stats:
  assumes "0 < v"
  shows "list_all (column_stats a v) rel \<Longrightarrow>
         z_score_clauses rel = Inr (map (\<lambda>c. (cells c, a, sqrt v)) rel)"
proof (induction rel)
  case Nil
  then show ?case by simp
next
  case (Cons c rel)
  then have c: "column_stats a v c" and ih: "z_score_clauses rel = Inr (map (\<lambda>c. (cells c, a, sqrt v)) rel)"
    by simp_all
  from c have ne: "non_null (cells c) \<noteq> []" by (auto simp: column_stats_def)
  from c assms ne ih show ?case
    by (simp add: column_stats_def numeric_values_def sql_stddev_samp_def sql_avg_def)
qed

lemma z_score_filter_sq:
  assumes "0 < v" and "0 \<le> z"
  shows "z_score_filter (map (\<lambda>c. (cells c, a, sqrt v)) rel) z n
       = foldr (\<lambda>c acc. map2 sql_and (map (z_score_clause_sq a v z) (cells c)) acc) rel
           (replicate n (Some True))"
  by (induction rel) (simp_all add: z_score_filter_def z_score_clause_sqrt [OF assms])

lemma identity_stats: "list_all (column_stats (1 / 11) (1 / 11)) identity_table"
  by code_simp

lemma identity_flags:
  "map (\<lambda>b. b \<noteq> Some False)
     (foldr (\<lambda>c acc. map2 sql_and (map (z_score_clause_sq (1 / 11) (1 / 11) 3) (cells c)) acc)
        identity_table (replicate 11 (Some True)))
   = replicate 11 False"
  by code_simp

lemma identity_outliers:
  assumes "conn name = Some identity_table"
  shows "handle_outliers conn name 3
       = Inr (conn(name \<mapsto> keep_rows (replicate 11 False) identity_table), name)"
proof -
  have c: "z_score_clauses identity_table
         = Inr (map (\<lambda>c. (cells c, 1 / 11, sqrt (1 / 11))) identity_table)"
    by (rule z_score_clauses_stats [OF _ identity_stats]) simp
  have ne: "map (\<lambda>c. (cells c, 1 / 11 :: real, sqrt (1 / 11))) identity_table \<noteq> []"
    by (simp add: identity_table_def)
  have n: "nrows identity_table = 11" by code_simp
  have f: "map (\<lambda>b. b \<noteq> Some False)
             (z_score_filter (map (\<lambda>c. (cells c, 1 / 11, sqrt (1 / 11))) identity_table) 3 11)
           = replicate 11 False"
    using identity_flags by (simp add: z_score_filter_sq)
  show ?thesis
    using assms c ne n f by (simp add: handle_outliers_def)
qed

text \<open>
  Claim C2 on \<open>identity_table\<close>. Each column holds one 1 and ten 0, so its mean is 1/11,
  its sample deviation is the root of 1/11, and the z-score of the 1 is 10 over the root
  of 11, about 3.015: every row is an outlier on one column and the filter deletes all
  eleven rows. The type inference then samples an empty column and divides by zero, and
  the exception leaves the pipeline.
\<close>

theorem pipeline_all_rows_removed_raises:
  "clean_and_store_data example_env Map.empty (Some identity_table) (u ''identity.csv'')
     (u ''1700000000'') (u ''ab12cd34'') = Inl ZeroDivisionError"
proof -
  let ?UID = "u ''identity_1700000000_ab12cd34''"
  let ?RN = "u ''tmp_identity_1700000000_ab12cd34''"
  let ?RNC = "u ''tmp_identity_1700000000_ab12cd34_cleaned''"
  let ?c2 = "(Map.empty(?RN \<mapsto> identity_table))(?RNC \<mapsto> identity_table)"
  let ?empty = "keep_rows (replicate 11 False) identity_table"
  have uid: "upload_filename (u ''identity.csv'') @ [95] @ u ''1700000000'' @ [95] @ u ''ab12cd34'' = ?UID"
    by code_simp
  have rn: "u ''tmp_'' @ ?UID = ?RN" by code_simp
  have rnc: "?RN @ u ''_cleaned'' = ?RNC" by code_simp
  have ne: "?RNC \<noteq> ?RN" by code_simp
  have ok: "identifier_ok example_env ?RN" by code_simp
  have s: "sanitize_columns example_env identity_table (map cname identity_table) = Inr identity_table"
    by code_simp
  have d: "drop_null_columns example_env identity_table identity_table = Inr identity_table"
    by code_simp
  have k: "keep_rows (map Not (all_null_rows identity_table)) identity_table = identity_table"
    by code_simp
  have n: "nrows identity_table \<noteq> 0" "identity_table \<noteq> []" by code_simp+
  have im: "impute_columns example_env (zip identity_table (map ctype identity_table))
            = Inr identity_table" by code_simp
  have m: "handle_missing_data example_env (Map.empty(?RN \<mapsto> identity_table)) ?RN = Inr (?c2, ?RNC)"
    using d k n im rnc ne by (simp add: handle_missing_data_def Let_def)
  have o: "handle_outliers ?c2 ?RNC 3 = Inr (?c2(?RNC \<mapsto> ?empty), ?RNC)"
    by (rule identity_outliers) simp
  have sd: "set_datatypes example_env ?empty (map cname ?empty) = Inl ZeroDivisionError"
    by code_simp
  have i: "infer_and_set_datatypes example_env (?c2(?RNC \<mapsto> ?empty)) ?RNC = Inl ZeroDivisionError"
    using sd by (simp add: infer_and_set_datatypes_def)
  show ?thesis
    unfolding clean_and_store_data_def Let_def uid rn option.case
    using ok s m o i by simp
qed

end
